theory Spec2Isabelle
  imports Complex_Main
begin

section \<open>Daily water balance of G'DAY: a shallow embedding\<close>

text \<open>
  The model follows \<^verbatim>\<open>src/utilities.py\<close> and \<^verbatim>\<open>src/water_balance.py\<close>.
  Python floats are modelled as \<^typ>\<open>real\<close>: rounding, overflow, infinities and NaN are
  not represented. What Python's arithmetic raises on finite operands (division by zero,
  \<^verbatim>\<open>math.sqrt\<close> and \<^verbatim>\<open>math.log\<close> outside their domain, \<^verbatim>\<open>**\<close> outside its domain,
  arithmetic on \<^verbatim>\<open>None\<close>) is a value of the error type.
\<close>

subsection \<open>What Python's arithmetic raises\<close>

datatype py_error =
  ZeroDivisionError | ValueError | TypeError | KeyError | IndexError
  | UnboundLocalError | SystemExit

type_synonym 'a result = "py_error + 'a"

definition bind_res :: "'a result \<Rightarrow> ('a \<Rightarrow> 'b result) \<Rightarrow> 'b result" where
  "bind_res m k = (case m of Inl e \<Rightarrow> Inl e | Inr v \<Rightarrow> k v)"

text \<open>A float operand that may be \<^verbatim>\<open>None\<close>: arithmetic on it raises \<^verbatim>\<open>TypeError\<close>.\<close>

definition py_float :: "real option \<Rightarrow> real result" where
  "py_float v = (case v of None \<Rightarrow> Inl TypeError | Some x \<Rightarrow> Inr x)"

definition py_div :: "real \<Rightarrow> real \<Rightarrow> real result" where
  "py_div a b = (if b = 0 then Inl ZeroDivisionError else Inr (a / b))"

definition py_sqrt :: "real \<Rightarrow> real result" where
  "py_sqrt x = (if x < 0 then Inl ValueError else Inr (sqrt x))"

definition py_log :: "real \<Rightarrow> real result" where
  "py_log x = (if x \<le> 0 then Inl ValueError else Inr (ln x))"

text \<open>\<^verbatim>\<open>x ** y\<close> on floats (Python 2): anything to the power zero is one, zero to a negative
  power and a negative base with a fractional exponent raise.\<close>

definition py_pow :: "real \<Rightarrow> real \<Rightarrow> real result" where
  "py_pow x y =
     (if y = 0 then Inr 1
      else if x = 0 then (if y < 0 then Inl ZeroDivisionError else Inr 0)
      else if x < 0 then
        (if y = of_int \<lfloor>y\<rfloor>
         then Inr ((if even \<lfloor>y\<rfloor> then 1 else - 1) * ((- x) powr y))
         else Inl ValueError)
      else Inr (x powr y))"

text \<open>\<^verbatim>\<open>xs[i]\<close>: a negative index counts from the end.\<close>

definition py_index :: "'a list \<Rightarrow> int \<Rightarrow> 'a result" where
  "py_index xs i =
     (if 0 \<le> i \<and> i < int (length xs) then Inr (xs ! nat i)
      else if i < 0 \<and> - int (length xs) \<le> i then Inr (xs ! nat (int (length xs) + i))
      else Inl IndexError)"

subsection \<open>utilities.py\<close>

definition default_tol :: real where
  "default_tol = 1 / 10 ^ 14"

definition float_eq :: "real \<Rightarrow> real \<Rightarrow> real \<Rightarrow> bool" where
  "float_eq arg1 arg2 tol \<longleftrightarrow> \<bar>arg1 - arg2\<bar> < tol + tol * \<bar>arg2\<bar>"

definition float_lt :: "real \<Rightarrow> real \<Rightarrow> real \<Rightarrow> bool" where
  "float_lt arg1 arg2 tol \<longleftrightarrow> arg2 - arg1 > \<bar>arg1\<bar> * tol"

text \<open>\<^verbatim>\<open>float_le\<close> forwards to \<^verbatim>\<open>float_lt\<close> without its own tolerance, so the
  callee's default applies.\<close>

definition float_le :: "real \<Rightarrow> real \<Rightarrow> real \<Rightarrow> bool" where
  "float_le arg1 arg2 tol \<longleftrightarrow> float_lt arg1 arg2 default_tol"

definition float_gt :: "real \<Rightarrow> real \<Rightarrow> real \<Rightarrow> bool" where
  "float_gt arg1 arg2 tol \<longleftrightarrow> arg1 - arg2 > \<bar>arg1\<bar> * tol"

definition clip :: "real \<Rightarrow> real option \<Rightarrow> real option \<Rightarrow> real" where
  "clip v minv maxv =
     (let v1 = (case minv of Some m \<Rightarrow> if v < m then m else v | None \<Rightarrow> v)
      in (case maxv of Some m \<Rightarrow> if v1 > m then m else v1 | None \<Rightarrow> v1))"

subsection \<open>Data model\<close>

record control =
  trans_model :: int
  assim_model :: string
  sw_stress_model :: int
  calc_sw_params :: bool

record params =
  albedo :: real
  intercep_frac :: real
  max_intercep_lai :: real
  dz0v_dh :: real
  displace_ratio :: real
  z0h_z0m :: real
  g1 :: real
  qs :: real
  fractup_soil :: real
  wcapac_topsoil :: real
  wcapac_root :: real
  topsoil_type :: string
  rootsoil_type :: string
  topsoil_depth :: real
  rooting_depth :: real
  theta_sat_topsoil :: real
  theta_sat_root :: real
  b_topsoil :: real
  b_root :: real
  psi_sat_topsoil :: real
  psi_sat_root :: real
  ctheta_topsoil :: "real option"
  ntheta_topsoil :: "real option"
  ctheta_root :: "real option"
  ntheta_root :: "real option"

record state =
  pawater_topsoil :: real
  pawater_root :: real
  wtfac_topsoil :: real
  wtfac_root :: real
  lai :: real
  canht :: real
  delta_sw_store :: real

record fluxes =
  transpiration :: real
  soil_evap :: real
  interception :: real
  erain :: real
  et :: real
  runoff :: real
  gs_mol_m2_sec :: real
  ga_mol_m2_sec :: real
  omega :: real
  gpp_gCm2 :: real
  gpp_am :: real
  gpp_pm :: real
  wue :: real

text \<open>The module \<^verbatim>\<open>constants\<close> is imported by \<^verbatim>\<open>water_balance.py\<close> and is not part of the
  sources at hand; the constants it provides are taken as a parameter.\<close>

record constants =
  DEG_TO_KELVIN :: real
  MM_TO_M :: real
  RGAS :: real
  GRAMS_C_TO_MOL_C :: real
  MOL_TO_UMOL :: real
  WATT_HR_TO_MJ :: real

text \<open>The attributes of a \<^verbatim>\<open>PenmanMonteith\<close> object (\<^verbatim>\<open>Penman\<close> and
  \<^verbatim>\<open>PriestleyTaylor\<close> inherit the constructor).\<close>

record penman_monteith =
  pm_cp :: real
  pm_vk :: real
  pm_epsilon :: real
  pm_zele_sea :: real
  pm_dz0v_dh :: real
  pm_displace_ratio :: real
  pm_z0h_z0m :: real

text \<open>The object built by the constructor's default arguments.\<close>

definition PenmanMonteith_init :: penman_monteith where
  "PenmanMonteith_init = \<lparr>pm_cp = 1.013 / 1000, pm_vk = 0.41, pm_epsilon = 0.6222,
     pm_zele_sea = 125, pm_dz0v_dh = 0.1, pm_displace_ratio = 0.67, pm_z0h_z0m = 1\<rparr>"

text \<open>\<^verbatim>\<open>WaterBalance.__init__\<close> builds its \<^verbatim>\<open>self.P\<close> from three parameters.\<close>

definition WaterBalance_P :: "params \<Rightarrow> penman_monteith" where
  "WaterBalance_P p = PenmanMonteith_init\<lparr>pm_dz0v_dh := dz0v_dh p,
     pm_displace_ratio := displace_ratio p, pm_z0h_z0m := z0h_z0m p\<rparr>"

text \<open>The forcing: a dictionary from series names to series; the value stored for a name
  may be \<^verbatim>\<open>None\<close>.\<close>

type_synonym met_data = "string \<rightharpoonup> real list option"

text \<open>The fifteen values \<^verbatim>\<open>get_met_data\<close> returns for one day.\<close>

record met_day =
  met_tair_am :: real
  met_tair_pm :: real
  met_tair_day :: real
  met_rain :: real
  met_sw_rad_am :: real
  met_sw_rad_pm :: real
  met_sw_rad_day :: real
  met_vpd_am :: real
  met_vpd_pm :: real
  met_vpd_day :: real
  met_wind_am :: real
  met_wind_pm :: real
  met_wind_day :: real
  met_ca :: real
  met_press :: "real option"

subsection \<open>Evaporation models\<close>

definition calc_latent_heat_of_vapourisation :: "real \<Rightarrow> real" where
  "calc_latent_heat_of_vapourisation tavg = 2.501 - 0.002361 * tavg"

definition calc_density_of_air :: "real \<Rightarrow> real" where
  "calc_density_of_air tavg = 1.292 - 0.00428 * tavg"

definition calc_atmos_pressure :: "penman_monteith \<Rightarrow> real result" where
  "calc_atmos_pressure P =
     bind_res (py_pow ((293 - 0.0065 * pm_zele_sea P) / 293) 5.26) (\<lambda>w.
     Inr (101.3 * w))"

definition calc_pyschrometric_constant :: "penman_monteith \<Rightarrow> real \<Rightarrow> real option \<Rightarrow> real result" where
  "calc_pyschrometric_constant P lambdax press =
     bind_res (py_float press) (\<lambda>pr.
     py_div (pm_cp P * pr) (pm_epsilon P * lambdax))"

definition calc_slope_of_saturation_vapour_pressure_curve :: "real \<Rightarrow> real result" where
  "calc_slope_of_saturation_vapour_pressure_curve tavg =
     (let t = tavg + 237.3 in
      bind_res (py_div (17.27 * tavg) t) (\<lambda>q.
      let arg1 = 4098 * (0.6108 * exp q) in
      bind_res (py_pow t 2) (\<lambda>arg2.
      py_div arg1 arg2)))"

definition canopy_boundary_layer_conductance :: "penman_monteith \<Rightarrow> real \<Rightarrow> real option \<Rightarrow> real result" where
  "canopy_boundary_layer_conductance P wind canht_opt =
     bind_res (py_float canht_opt) (\<lambda>ch.
     let z0m = pm_dz0v_dh P * ch;
         z0h = pm_z0h_z0m P * z0m;
         d = pm_displace_ratio P * ch in
     bind_res (py_pow (pm_vk P) 2) (\<lambda>vk2.
     let arg1 = vk2 * wind in
     bind_res (py_div (ch - d) z0m) (\<lambda>q2.
     bind_res (py_log q2) (\<lambda>arg2.
     bind_res (py_div (ch - d) z0h) (\<lambda>q3.
     bind_res (py_log q3) (\<lambda>arg3.
     py_div arg1 (arg2 * arg3)))))))"

text \<open>\<^verbatim>\<open>press == None\<close> selects the pressure computed from the elevation.\<close>

definition resolve_press :: "penman_monteith \<Rightarrow> real option \<Rightarrow> real result" where
  "resolve_press P press = (case press of None \<Rightarrow> calc_atmos_pressure P | Some pr \<Rightarrow> Inr pr)"

definition PenmanMonteith_calc_evaporation ::
  "penman_monteith \<Rightarrow> real \<Rightarrow> real \<Rightarrow> real \<Rightarrow> real \<Rightarrow> real \<Rightarrow> real option \<Rightarrow> real option
     \<Rightarrow> real option \<Rightarrow> (real \<times> real) result" where
  "PenmanMonteith_calc_evaporation P vpd wind gs net_rad tavg press canht_opt ga_opt =
     bind_res (resolve_press P press) (\<lambda>pr.
     let lambdax = calc_latent_heat_of_vapourisation tavg in
     bind_res (calc_pyschrometric_constant P lambdax (Some pr)) (\<lambda>gamma.
     bind_res (calc_slope_of_saturation_vapour_pressure_curve tavg) (\<lambda>slope.
     let rho = calc_density_of_air tavg in
     bind_res (case ga_opt of None \<Rightarrow> canopy_boundary_layer_conductance P wind canht_opt
               | Some g \<Rightarrow> Inr g) (\<lambda>ga.
     if float_gt gs 0 default_tol then
       bind_res (py_div slope gamma) (\<lambda>e.
       bind_res (py_div ga gs) (\<lambda>r1.
       bind_res (py_div (e + 1) (e + 1 + r1)) (\<lambda>omega_v.
       let arg1 = slope * net_rad + rho * pm_cp P * vpd * ga in
       bind_res (py_div ga gs) (\<lambda>r2.
       let arg2 = slope + gamma * (1 + r2) in
       bind_res (py_div arg1 arg2) (\<lambda>q.
       bind_res (py_div q lambdax) (\<lambda>et_v.
       Inr (et_v, omega_v)))))))
     else Inr (0, 0)))))"

definition Penman_calc_evaporation :: "penman_monteith \<Rightarrow> real \<Rightarrow> real \<Rightarrow> real option \<Rightarrow> real result" where
  "Penman_calc_evaporation P net_rad tavg press =
     bind_res (resolve_press P press) (\<lambda>pr.
     let lambdax = calc_latent_heat_of_vapourisation tavg in
     bind_res (calc_pyschrometric_constant P lambdax (Some pr)) (\<lambda>gamma.
     bind_res (calc_slope_of_saturation_vapour_pressure_curve tavg) (\<lambda>slope.
     bind_res (py_div slope (slope + gamma)) (\<lambda>q.
     py_div (q * net_rad) lambdax))))"

text \<open>\<^verbatim>\<open>PriestleyTaylor.calc_evaporation\<close> has no test for a missing pressure.\<close>

definition PriestleyTaylor_calc_evaporation ::
  "penman_monteith \<Rightarrow> real \<Rightarrow> real \<Rightarrow> real option \<Rightarrow> real \<Rightarrow> real result" where
  "PriestleyTaylor_calc_evaporation P net_rad tavg press pt_coeff =
     (let lambdax = calc_latent_heat_of_vapourisation tavg in
      bind_res (calc_pyschrometric_constant P lambdax press) (\<lambda>gamma.
      bind_res (calc_slope_of_saturation_vapour_pressure_curve tavg) (\<lambda>slope.
      bind_res (py_div pt_coeff lambdax) (\<lambda>c.
      bind_res (py_div slope (slope + gamma)) (\<lambda>q.
      Inr (c * q * net_rad))))))"

subsection \<open>WaterBalance\<close>

definition met_series :: "met_data \<Rightarrow> string \<Rightarrow> int \<Rightarrow> real result" where
  "met_series md key day =
     (case md key of
        None \<Rightarrow> Inl KeyError
      | Some None \<Rightarrow> Inl TypeError
      | Some (Some xs) \<Rightarrow> py_index xs day)"

definition get_met_data :: "met_data \<Rightarrow> int \<Rightarrow> real \<Rightarrow> met_day result" where
  "get_met_data md day daylen =
     bind_res (met_series md ''co2'' day) (\<lambda>ca.
     bind_res (met_series md ''tair'' day) (\<lambda>tair_day.
     bind_res (met_series md ''tam'' day) (\<lambda>tair_am.
     bind_res (met_series md ''tpm'' day) (\<lambda>tair_pm.
     bind_res (met_series md ''sw_rad'' day) (\<lambda>sw_rad_day.
     bind_res (met_series md ''sw_rad_am'' day) (\<lambda>sw_rad_am.
     bind_res (met_series md ''sw_rad_pm'' day) (\<lambda>sw_rad_pm.
     bind_res (met_series md ''rain'' day) (\<lambda>rain.
     bind_res (met_series md ''vpd_avg'' day) (\<lambda>vpd_day.
     bind_res (met_series md ''vpd_am'' day) (\<lambda>vpd_am.
     bind_res (met_series md ''vpd_pm'' day) (\<lambda>vpd_pm.
     bind_res (met_series md ''wind_am'' day) (\<lambda>wind_am.
     bind_res (met_series md ''wind_pm'' day) (\<lambda>wind_pm.
     bind_res (met_series md ''wind'' day) (\<lambda>wind_day.
     bind_res (case md ''atmos_press'' of
                 Some (Some xs) \<Rightarrow> bind_res (py_index xs day) (\<lambda>v. Inr (Some v))
               | _ \<Rightarrow> Inr None) (\<lambda>press.
     Inr \<lparr>met_tair_am = tair_am, met_tair_pm = tair_pm, met_tair_day = tair_day,
          met_rain = rain, met_sw_rad_am = sw_rad_am, met_sw_rad_pm = sw_rad_pm,
          met_sw_rad_day = sw_rad_day, met_vpd_am = vpd_am, met_vpd_pm = vpd_pm,
          met_vpd_day = vpd_day, met_wind_am = wind_am, met_wind_pm = wind_pm,
          met_wind_day = wind_day, met_ca = ca, met_press = press\<rparr>)))))))))))))))"

definition calc_infiltration :: "params \<Rightarrow> state \<Rightarrow> fluxes \<Rightarrow> real \<Rightarrow> fluxes result" where
  "calc_infiltration p s f rain =
     (if lai s > 0 then
        bind_res (py_div (lai s) (max_intercep_lai p)) (\<lambda>q.
        let f1 = f\<lparr>interception := rain * intercep_frac p * min 1 q\<rparr>
        in Inr (f1\<lparr>erain := rain - interception f1\<rparr>))
      else Inr (f\<lparr>erain := max 0 rain, interception := 0\<rparr>))"

definition calc_transpiration :: "fluxes \<Rightarrow> fluxes result" where
  "calc_transpiration f =
     (if float_gt (wue f) 0 default_tol
      then bind_res (py_div (gpp_gCm2 f) (wue f)) (\<lambda>t. Inr (f\<lparr>transpiration := t\<rparr>))
      else Inr (f\<lparr>transpiration := 0\<rparr>))"

definition calc_transpiration_priestay :: "fluxes \<Rightarrow> real \<Rightarrow> real \<Rightarrow> real option \<Rightarrow> fluxes result" where
  "calc_transpiration_priestay f net_rad tavg press =
     bind_res (PriestleyTaylor_calc_evaporation PenmanMonteith_init net_rad tavg press 1.26) (\<lambda>t.
     Inr (f\<lparr>transpiration := t\<rparr>))"

definition calc_stomatal_conductance ::
  "constants \<Rightarrow> params \<Rightarrow> state \<Rightarrow> real \<Rightarrow> real \<Rightarrow> real \<Rightarrow> real \<Rightarrow> real option \<Rightarrow> real
     \<Rightarrow> real result" where
  "calc_stomatal_conductance K p s vpd ca daylen gpp press temp =
     bind_res (py_div 1 (60 * 60 * daylen)) (\<lambda>DAY_2_SEC.
     let gpp_umol_m2_sec = gpp * GRAMS_C_TO_MOL_C K * MOL_TO_UMOL K * DAY_2_SEC in
     bind_res (py_sqrt vpd) (\<lambda>rt.
     bind_res (py_div (g1 p * wtfac_root s) rt) (\<lambda>q.
     let arg1 = 1.6 * (1 + q) in
     bind_res (py_div gpp_umol_m2_sec ca) (\<lambda>arg2.
     Inr (arg1 * arg2)))))"

text \<open>The conversion factor \<^verbatim>\<open>MM_TO_M / (press / (RGAS * tk))\<close> shared by the two
  Penman-Monteith paths.\<close>

definition mol_sec_2_m_per_sec :: "constants \<Rightarrow> real option \<Rightarrow> real \<Rightarrow> real result" where
  "mol_sec_2_m_per_sec K press tk =
     bind_res (py_float press) (\<lambda>pr.
     bind_res (py_div pr (RGAS K * tk)) (\<lambda>q.
     py_div (MM_TO_M K) q))"

text \<open>The daily path calls \<^verbatim>\<open>canopy_boundary_layer_conductance(wind)\<close> without the
  canopy height the method requires, which Python refuses with a \<^verbatim>\<open>TypeError\<close>; the
  statements after the call are never reached.\<close>

definition calc_transpiration_penmon ::
  "constants \<Rightarrow> params \<Rightarrow> state \<Rightarrow> fluxes \<Rightarrow> real \<Rightarrow> real \<Rightarrow> real \<Rightarrow> real \<Rightarrow> real \<Rightarrow> real
     \<Rightarrow> real option \<Rightarrow> fluxes result" where
  "calc_transpiration_penmon K p s f vpd net_rad tavg wind ca daylen press =
     (let SEC_2_DAY = 60 * 60 * daylen in
      bind_res (py_div 1 SEC_2_DAY) (\<lambda>DAY_2_SEC.
      bind_res (calc_stomatal_conductance K p s vpd ca daylen (gpp_gCm2 f) press tavg) (\<lambda>gs.
      let tk = tavg + DEG_TO_KELVIN K in
      bind_res (mol_sec_2_m_per_sec K press tk) (\<lambda>MOL_SEC_2_M_PER_SEC.
      bind_res (py_div 1 MOL_SEC_2_M_PER_SEC) (\<lambda>M_PER_SEC_2_MOL_SEC.
      Inl TypeError)))))"

definition calc_transpiration_penmon_am_pm ::
  "constants \<Rightarrow> params \<Rightarrow> state \<Rightarrow> real \<Rightarrow> real \<Rightarrow> real \<Rightarrow> real \<Rightarrow> real option \<Rightarrow> real \<Rightarrow> real
     \<Rightarrow> real \<Rightarrow> (real \<times> real \<times> real \<times> real) result" where
  "calc_transpiration_penmon_am_pm K p s net_rad wind ca daylen press vpd tair gpp =
     (let ch = canht s;
          half_day = daylen / 2;
          SEC_2_HALF_DAY = 60 * 60 * half_day in
      bind_res (py_div 1 SEC_2_HALF_DAY) (\<lambda>HALF_DAY_2_SEC.
      let Tk = tair + DEG_TO_KELVIN K in
      bind_res (mol_sec_2_m_per_sec K press Tk) (\<lambda>MOL_SEC_2_M_PER_SEC.
      bind_res (py_div 1 MOL_SEC_2_M_PER_SEC) (\<lambda>M_PER_SEC_2_MOL_SEC.
      bind_res (canopy_boundary_layer_conductance (WaterBalance_P p) wind (Some ch)) (\<lambda>ga_m_per_sec.
      bind_res (calc_stomatal_conductance K p s vpd ca half_day gpp press tair) (\<lambda>gs.
      let ga_mol_m2_hfday = ga_m_per_sec * M_PER_SEC_2_MOL_SEC * SEC_2_HALF_DAY;
          gs_mol_m2_hfday = gs * SEC_2_HALF_DAY;
          gs_m_per_sec = gs * MOL_SEC_2_M_PER_SEC in
      bind_res (PenmanMonteith_calc_evaporation (WaterBalance_P p) vpd wind gs_m_per_sec net_rad
                  tair press (Some ch) (Some ga_m_per_sec)) (\<lambda>(trans, omegax).
      Inr (trans * SEC_2_HALF_DAY, omegax, gs_mol_m2_hfday, ga_mol_m2_hfday))))))))"

definition calc_radiation :: "constants \<Rightarrow> params \<Rightarrow> real \<Rightarrow> real \<Rightarrow> real \<Rightarrow> real result" where
  "calc_radiation K p tavg sw_rad daylen =
     (let net_lw = (107 - 0.3 * tavg) * daylen * WATT_HR_TO_MJ K;
          net_rad = max 0 (sw_rad * (1 - albedo p) - net_lw) in
      bind_res (py_div 1 (60 * 60 * daylen)) (\<lambda>tconv.
      Inr (net_rad * tconv)))"

definition calc_soil_evaporation ::
  "state \<Rightarrow> real \<Rightarrow> real \<Rightarrow> real option \<Rightarrow> real \<Rightarrow> real \<Rightarrow> real result" where
  "calc_soil_evaporation s tavg net_rad press daylen sw_rad =
     bind_res (Penman_calc_evaporation PenmanMonteith_init net_rad tavg press) (\<lambda>e0.
     let e1 = (if float_gt (lai s) 0 default_tol then e0 * exp (- 0.398 * lai s) else e0);
         e2 = e1 * wtfac_topsoil s;
         tconv = 60 * 60 * daylen
     in Inr (e2 * tconv))"

subsubsection \<open>update_water_storage\<close>

text \<open>The method mutates \<^verbatim>\<open>self.state\<close> and \<^verbatim>\<open>self.fluxes\<close> and returns the runoff; the
  model returns the three of them. The steps are those of the source, in its order.\<close>

definition update_water_storage :: "params \<Rightarrow> state \<Rightarrow> fluxes \<Rightarrow> real \<Rightarrow> state \<times> fluxes \<times> real" where
  "update_water_storage p s f tolerance =
     (let trans_frac = fractup_soil p * wtfac_topsoil s;
          s1 = s\<lparr>pawater_topsoil := pawater_topsoil s +
                  (erain f - transpiration f * trans_frac - soil_evap f)\<rparr>;
          s2 = s1\<lparr>pawater_topsoil := clip (pawater_topsoil s1) (Some 0) (Some (wcapac_topsoil p))\<rparr>;
          previous = pawater_root s2;
          s3 = s2\<lparr>pawater_root := pawater_root s2 +
                  (erain f - transpiration f - soil_evap f)\<rparr>;
          (s4, runoff_v) =
             (if pawater_root s3 > wcapac_root p
              then (let r = pawater_root s3 - wcapac_root p
                    in (s3\<lparr>pawater_root := pawater_root s3 - r\<rparr>, r))
              else (s3, 0));
          f1 = (if float_le (pawater_root s4) 0 default_tol
                then f\<lparr>transpiration := 0, soil_evap := 0, et := interception f\<rparr>
                else f);
          s5 = s4\<lparr>pawater_root := clip (pawater_root s4) (Some 0) (Some (wcapac_root p))\<rparr>;
          s6 = s5\<lparr>delta_sw_store := pawater_root s5 - previous\<rparr>
      in (s6, f1, runoff_v))"

subsubsection \<open>calculate_water_balance\<close>

text \<open>The branch on \<^verbatim>\<open>trans_model\<close> (and on \<^verbatim>\<open>assim_model\<close> under model 1): a chain of
  \<^verbatim>\<open>if\<close>/\<^verbatim>\<open>elif\<close> with no final \<^verbatim>\<open>else\<close>, so any other value leaves the fluxes as they
  were.\<close>

definition transpiration_branch ::
  "constants \<Rightarrow> control \<Rightarrow> params \<Rightarrow> state \<Rightarrow> fluxes \<Rightarrow> met_day \<Rightarrow> real \<Rightarrow> real \<Rightarrow> real
     \<Rightarrow> real \<Rightarrow> fluxes result" where
  "transpiration_branch K c p s f m daylen net_rad_day net_rad_am net_rad_pm =
     (if trans_model c = 0 then calc_transpiration f
      else if trans_model c = 1 then
        (if assim_model c = ''BEWDY'' then
           calc_transpiration_penmon K p s f (met_vpd_day m) net_rad_day (met_tair_day m)
             (met_wind_day m) (met_ca m) daylen (met_press m)
         else if assim_model c = ''MATE'' then
           bind_res (calc_transpiration_penmon_am_pm K p s net_rad_am (met_wind_am m) (met_ca m)
                       daylen (met_press m) (met_vpd_am m) (met_tair_am m) (gpp_am f))
             (\<lambda>(trans_am, omegax_am, gs_mol_m2_hfday_am, ga_mol_m2_hfday_am).
           bind_res (calc_transpiration_penmon_am_pm K p s net_rad_pm (met_wind_pm m) (met_ca m)
                       daylen (met_press m) (met_vpd_pm m) (met_tair_pm m) (gpp_pm f))
             (\<lambda>(trans_pm, omegax_pm, gs_mol_m2_hfday_pm, ga_mol_m2_hfday_pm).
           bind_res (py_div 1 (60 * 60 * daylen)) (\<lambda>DAY_2_SEC.
           Inr (f\<lparr>omega := (omegax_am + omegax_pm) / 2,
                  gs_mol_m2_sec := (gs_mol_m2_hfday_am + gs_mol_m2_hfday_pm) * DAY_2_SEC,
                  ga_mol_m2_sec := (ga_mol_m2_hfday_am + ga_mol_m2_hfday_pm) * DAY_2_SEC,
                  transpiration := trans_am + trans_pm\<rparr>))))
         else Inr f)
      else if trans_model c = 2 then
        calc_transpiration_priestay f net_rad_day (met_tair_day m) (met_press m)
      else Inr f)"

text \<open>The statements after the branch: infiltration, soil evaporation, total
  evapotranspiration and the storage update. \<^verbatim>\<open>update_water_storage\<close> is called with its
  default tolerance.\<close>

definition water_balance_after_transpiration ::
  "params \<Rightarrow> state \<Rightarrow> fluxes \<Rightarrow> met_day \<Rightarrow> real \<Rightarrow> real \<Rightarrow> (state \<times> fluxes) result" where
  "water_balance_after_transpiration p s f m daylen net_rad_day =
     bind_res (calc_infiltration p s f (met_rain m)) (\<lambda>f2.
     bind_res (calc_soil_evaporation s (met_tair_day m) net_rad_day (met_press m) daylen
                 (met_sw_rad_day m)) (\<lambda>se.
     let f3 = f2\<lparr>soil_evap := se\<rparr>;
         f4 = f3\<lparr>et := transpiration f3 + soil_evap f3 + interception f3\<rparr>;
         (s', f5, r) = update_water_storage p s f4 (1 / 10 ^ 8)
     in Inr (s', f5\<lparr>runoff := r\<rparr>)))"

definition calculate_water_balance ::
  "constants \<Rightarrow> control \<Rightarrow> params \<Rightarrow> state \<Rightarrow> fluxes \<Rightarrow> met_data \<Rightarrow> int \<Rightarrow> real
     \<Rightarrow> (state \<times> fluxes) result" where
  "calculate_water_balance K c p s f md day daylen =
     (let half_day = daylen / 2 in
      bind_res (get_met_data md day daylen) (\<lambda>m.
      bind_res (calc_radiation K p (met_tair_day m) (met_sw_rad_day m) daylen) (\<lambda>net_rad_day.
      bind_res (calc_radiation K p (met_tair_am m) (met_sw_rad_am m) half_day) (\<lambda>net_rad_am.
      bind_res (calc_radiation K p (met_tair_pm m) (met_sw_rad_pm m) half_day) (\<lambda>net_rad_pm.
      bind_res (transpiration_branch K c p s f m daylen net_rad_day net_rad_am net_rad_pm) (\<lambda>f1.
      water_balance_after_transpiration p s f1 m daylen net_rad_day))))))"

subsection \<open>SoilMoisture\<close>

definition silt_index :: int where "silt_index = 0"
definition sand_index :: int where "sand_index = 1"
definition clay_index :: int where "clay_index = 2"

text \<open>\<^verbatim>\<open>sys.exit()\<close> in the final \<^verbatim>\<open>else\<close> of both lookups raises \<^verbatim>\<open>SystemExit\<close>.\<close>

definition get_soil_params :: "string \<Rightarrow> (real \<times> real) result" where
  "get_soil_params soil_type =
     (if soil_type = ''clay'' then Inr (0.4, 3)
      else if soil_type = ''clay_loam'' then Inr (0.5, 5)
      else if soil_type = ''loam'' then Inr (0.55, 6)
      else if soil_type = ''loamy_sand'' then Inr (0.65, 8)
      else if soil_type = ''sand'' then Inr (0.7, 9)
      else if soil_type = ''sandy_clay'' then Inr (0.45, 4)
      else if soil_type = ''sandy_clay_loam'' then Inr (0.525, 5.5)
      else if soil_type = ''sandy_loam'' then Inr (0.6, 7)
      else if soil_type = ''silt'' then Inr (0.625, 7.5)
      else if soil_type = ''silty_clay'' then Inr (0.425, 3.5)
      else if soil_type = ''silty_clay_loam'' then Inr (0.475, 4.5)
      else if soil_type = ''silty_loam'' then Inr (0.575, 6.5)
      else Inl SystemExit)"

definition get_soil_fracs :: "string \<Rightarrow> real list result" where
  "get_soil_fracs soil_type =
     (if soil_type = ''sand'' then Inr [0.05, 0.92, 0.03]
      else if soil_type = ''loamy_sand'' then Inr [0.12, 0.82, 0.06]
      else if soil_type = ''sandy_loam'' then Inr [0.32, 0.58, 0.1]
      else if soil_type = ''loam'' then Inr [0.39, 0.43, 0.18]
      else if soil_type = ''silty_loam'' then Inr [0.70, 0.17, 0.13]
      else if soil_type = ''sandy_clay_loam'' then Inr [0.15, 0.58, 0.27]
      else if soil_type = ''clay_loam'' then Inr [0.34, 0.32, 0.34]
      else if soil_type = ''silty_clay_loam'' then Inr [0.56, 0.1, 0.34]
      else if soil_type = ''sandy_clay'' then Inr [0.06, 0.52, 0.42]
      else if soil_type = ''silty_clay'' then Inr [0.47, 0.06, 0.47]
      else if soil_type = ''clay'' then Inr [0.2, 0.22, 0.58]
      else Inl SystemExit)"

definition calc_soil_params :: "real list \<Rightarrow> (real \<times> real \<times> real \<times> real \<times> real) result" where
  "calc_soil_params fsoil =
     (let pressure_head_wilt = - 152.9;
          pressure_head_crit = - 3.364 in
      bind_res (py_index fsoil clay_index) (\<lambda>clay.
      bind_res (py_index fsoil sand_index) (\<lambda>sand.
      let b = 3.1 + 15.7 * clay - 0.3 * sand in
      bind_res (py_index fsoil silt_index) (\<lambda>silt.
      bind_res (py_pow 10 (1.54 - 0.95 * sand + 0.63 * silt)) (\<lambda>w.
      let psi_sat = 0.01 * - w;
          KPA_2_MPA = 0.001;
          METER_OF_HEAD_TO_MPA = 9.81 * KPA_2_MPA;
          psi_sat_mpa = psi_sat * METER_OF_HEAD_TO_MPA;
          theta_sp = 0.505 - 0.037 * clay - 0.142 * sand in
      bind_res (py_div 1 b) (\<lambda>ib.
      bind_res (py_pow (psi_sat / pressure_head_wilt) ib) (\<lambda>w_wp.
      let theta_wp = theta_sp * w_wp in
      bind_res (py_div 1 b) (\<lambda>ib2.
      bind_res (py_pow (psi_sat / pressure_head_crit) ib2) (\<lambda>w_fc.
      let theta_fc = theta_sp * w_fc in
      Inr (theta_fc, theta_wp, theta_sp, b, psi_sat_mpa))))))))))"

text \<open>The block guarded by \<^verbatim>\<open>calc_sw_params\<close>: capacities and hydraulic parameters of
  both layers from their textures.\<close>

definition initialise_hydraulics :: "control \<Rightarrow> params \<Rightarrow> params result" where
  "initialise_hydraulics c p =
     (if calc_sw_params c then
        bind_res (get_soil_fracs (topsoil_type p)) (\<lambda>fsoil_top.
        bind_res (get_soil_fracs (rootsoil_type p)) (\<lambda>fsoil_root.
        bind_res (calc_soil_params fsoil_top)
          (\<lambda>(theta_fc_topsoil, theta_wp_topsoil, theta_sat, b, psi_sat).
        let p1 = p\<lparr>theta_sat_topsoil := theta_sat, b_topsoil := b, psi_sat_topsoil := psi_sat\<rparr>;
            p2 = p1\<lparr>wcapac_topsoil := topsoil_depth p1 * (theta_fc_topsoil - theta_wp_topsoil)\<rparr> in
        bind_res (calc_soil_params fsoil_root)
          (\<lambda>(theta_fc_root, theta_wp_root, theta_sat, b, psi_sat).
        let p3 = p2\<lparr>theta_sat_root := theta_sat, b_root := b, psi_sat_root := psi_sat\<rparr>
        in Inr (p3\<lparr>wcapac_root := rooting_depth p3 * (theta_fc_root - theta_wp_root)\<rparr>)))))
      else Inr p)"

text \<open>The soil types are read into locals before the block; the guard on the four
  Landsberg-Waring parameters follows it.\<close>

definition initialise_parameters :: "control \<Rightarrow> params \<Rightarrow> params result" where
  "initialise_parameters c p =
     (let topsoil = topsoil_type p;
          rootsoil = rootsoil_type p in
      bind_res (initialise_hydraulics c p) (\<lambda>p4.
      if ctheta_topsoil p4 = None \<and> ntheta_topsoil p4 = None \<and>
         ctheta_root p4 = None \<and> ntheta_root p4 = None
      then
        bind_res (get_soil_params topsoil) (\<lambda>(c_top, n_top).
        let p5 = p4\<lparr>ctheta_topsoil := Some c_top, ntheta_topsoil := Some n_top\<rparr> in
        bind_res (get_soil_params rootsoil) (\<lambda>(c_root, n_root).
        Inr (p5\<lparr>ctheta_root := Some c_root, ntheta_root := Some n_root\<rparr>)))
      else Inr p4))"

definition calc_sw_modifier :: "real \<Rightarrow> real option \<Rightarrow> real option \<Rightarrow> real result" where
  "calc_sw_modifier theta c_theta n_theta =
     bind_res (py_float c_theta) (\<lambda>cth.
     bind_res (py_div (1 - theta) cth) (\<lambda>q.
     bind_res (py_float n_theta) (\<lambda>nth.
     bind_res (py_pow q nth) (\<lambda>w.
     py_div 1 (1 + w)))))"

text \<open>Soil water potential of one layer under stress model 2.\<close>

definition psi_swp :: "real \<Rightarrow> real \<Rightarrow> real \<Rightarrow> real \<Rightarrow> real result" where
  "psi_swp smc psi_sat theta_sat b =
     (if float_eq smc 0 default_tol then Inr (- 1.5)
      else
        bind_res (py_div smc theta_sat) (\<lambda>arg2.
        bind_res (py_pow arg2 (- b)) (\<lambda>w.
        Inr (psi_sat * w))))"

text \<open>With a stress model other than 0, 1 or 2 neither local is assigned and the
  \<^verbatim>\<open>return\<close> raises \<^verbatim>\<open>UnboundLocalError\<close>.\<close>

definition calculate_soil_water_fac :: "control \<Rightarrow> params \<Rightarrow> state \<Rightarrow> (real \<times> real) result" where
  "calculate_soil_water_fac c p s =
     bind_res (py_div (pawater_topsoil s) (wcapac_topsoil p)) (\<lambda>smc_topsoil.
     bind_res (py_div (pawater_root s) (wcapac_root p)) (\<lambda>smc_root.
     if sw_stress_model c = 0 then
       bind_res (py_pow smc_topsoil (qs p)) (\<lambda>wt.
       bind_res (py_pow smc_root (qs p)) (\<lambda>wr.
       Inr (wt, wr)))
     else if sw_stress_model c = 1 then
       bind_res (calc_sw_modifier smc_topsoil (ctheta_topsoil p) (ntheta_topsoil p)) (\<lambda>wt.
       bind_res (calc_sw_modifier smc_root (ctheta_root p) (ntheta_root p)) (\<lambda>wr.
       Inr (wt, wr)))
     else if sw_stress_model c = 2 then
       bind_res (psi_swp smc_topsoil (psi_sat_topsoil p) (theta_sat_topsoil p) (b_topsoil p))
         (\<lambda>psi_swp_topsoil.
       bind_res (psi_swp smc_root (psi_sat_root p) (theta_sat_root p) (b_root p))
         (\<lambda>psi_swp_root.
       let b = 0.66 in
       Inr (exp (b * psi_swp_topsoil), exp (b * psi_swp_root))))
     else Inl UnboundLocalError))"

subsection \<open>Concrete inputs\<close>

text \<open>Usual values of the constants module, a parameter set, a state, a flux record and one
  day of forcing, used to run the definitions.\<close>

definition demo_constants :: constants where
  "demo_constants = \<lparr>DEG_TO_KELVIN = 273.15, MM_TO_M = 0.001, RGAS = 8.314,
     GRAMS_C_TO_MOL_C = 1 / 12, MOL_TO_UMOL = 1000000, WATT_HR_TO_MJ = 0.0036\<rparr>"

definition demo_control :: control where
  "demo_control = \<lparr>trans_model = 1, assim_model = ''MATE'', sw_stress_model = 1,
     calc_sw_params = False\<rparr>"

definition demo_params :: params where
  "demo_params = \<lparr>albedo = 0.25, intercep_frac = 0.5, max_intercep_lai = 4,
     dz0v_dh = 0.1, displace_ratio = 0.5, z0h_z0m = 1, g1 = 4, qs = 1,
     fractup_soil = 0.5, wcapac_topsoil = 50, wcapac_root = 100,
     topsoil_type = ''clay'', rootsoil_type = ''sand'',
     topsoil_depth = 450, rooting_depth = 2000,
     theta_sat_topsoil = 0.5, theta_sat_root = 0.5, b_topsoil = 6, b_root = 6,
     psi_sat_topsoil = - 0.002, psi_sat_root = - 0.002,
     ctheta_topsoil = None, ntheta_topsoil = None, ctheta_root = None, ntheta_root = None\<rparr>"

definition demo_state :: state where
  "demo_state = \<lparr>pawater_topsoil = 40, pawater_root = 95, wtfac_topsoil = 1, wtfac_root = 1,
     lai = 0, canht = 20, delta_sw_store = 0\<rparr>"

definition demo_fluxes :: fluxes where
  "demo_fluxes = \<lparr>transpiration = 3, soil_evap = 2, interception = 0, erain = 0, et = 5,
     runoff = 0, gs_mol_m2_sec = 0, ga_mol_m2_sec = 0, omega = 0, gpp_gCm2 = 0, gpp_am = 0,
     gpp_pm = 0, wue = 0\<rparr>"

definition demo_met :: met_data where
  "demo_met = map_of
     [(''co2'', Some [380]), (''tair'', Some [0]), (''tam'', Some [0]), (''tpm'', Some [0]),
      (''sw_rad'', Some [20]), (''sw_rad_am'', Some [10]), (''sw_rad_pm'', Some [10]),
      (''rain'', Some [10]), (''vpd_avg'', Some [1]), (''vpd_am'', Some [1]),
      (''vpd_pm'', Some [1]), (''wind_am'', Some [2]), (''wind_pm'', Some [2]),
      (''wind'', Some [2]), (''atmos_press'', Some [100])]"

section \<open>Properties\<close>

subsection \<open>Auxiliary facts\<close>

lemma bind_res_Inl [simp]: "bind_res (Inl e) k = Inl e"
  by (simp add: bind_res_def)

lemma bind_res_Inr [simp]: "bind_res (Inr v) k = k v"
  by (simp add: bind_res_def)

lemma isl_bind_res: "isl m \<Longrightarrow> isl (bind_res m k)"
  by (cases m) simp_all

lemma py_div_zero [simp]: "py_div a 0 = Inl ZeroDivisionError"
  by (simp add: py_div_def)

lemma py_div_nonzero: "b \<noteq> 0 \<Longrightarrow> py_div a b = Inr (a / b)"
  by (simp add: py_div_def)

lemma py_float_Some [simp]: "py_float (Some x) = Inr x"
  by (simp add: py_float_def)

lemma py_float_None [simp]: "py_float None = Inl TypeError"
  by (simp add: py_float_def)

lemma float_lt_zero: "float_lt x 0 default_tol \<longleftrightarrow> x < 0"
  unfolding float_lt_def default_tol_def
  by (cases "x < 0") (auto simp: mult_less_cancel_left2 abs_if mult_le_0_iff)

lemma float_le_zero: "float_le x 0 tol \<longleftrightarrow> x < 0"
  by (simp add: float_le_def float_lt_zero)

lemma float_gt_zero: "float_gt x 0 default_tol \<longleftrightarrow> 0 < x"
  unfolding float_gt_def default_tol_def
  by (cases "0 < x") (auto simp: abs_if mult_less_cancel_left1 zero_less_mult_iff)

lemma clip_bounds:
  "0 \<le> m \<Longrightarrow> 0 \<le> clip v (Some 0) (Some m) \<and> clip v (Some 0) (Some m) \<le> m"
  by (simp add: clip_def Let_def)

lemma py_pow_two: "py_pow x 2 = Inr (x ^ 2)"
proof -
  have "x < 0 \<Longrightarrow> (- x) powr 2 = x ^ 2"
    using powr_numeral [of "- x" "Num.Bit0 Num.One"] by simp
  moreover have "0 < x \<Longrightarrow> x powr 2 = x ^ 2"
    using powr_numeral [of x "Num.Bit0 Num.One"] by simp
  ultimately show ?thesis
    by (cases "x = 0"; cases "x < 0") (simp_all add: py_pow_def)
qed

subsection \<open>Storage update\<close>

text \<open>
  Claim C1 (the drought feedback when the root-zone store lands exactly on zero).
  Start from \<open>pawater_root = 5\<close> with no effective rain, \<open>transpiration = 3\<close> and
  \<open>soil_evap = 2\<close>: the raw root-zone store is exactly \<open>0\<close>. \<^verbatim>\<open>float_le\<close> is
  \<^verbatim>\<open>float_lt\<close>, which is false for equal arguments, so the drought branch is not taken:
  the fluxes come back untouched, with \<open>transpiration = 3\<close>, \<open>soil_evap = 2\<close> and
  \<open>et = 5\<close> while \<open>interception = 0\<close>.
\<close>

theorem update_water_storage_root_exactly_zero:
  "update_water_storage demo_params (demo_state\<lparr>pawater_root := 5\<rparr>) demo_fluxes (1 / 10 ^ 8) =
     (demo_state\<lparr>pawater_topsoil := 36.5, pawater_root := 0, delta_sw_store := - 5\<rparr>,
      demo_fluxes, 0)
   \<and> transpiration demo_fluxes = 3 \<and> soil_evap demo_fluxes = 2
   \<and> et demo_fluxes = 5 \<and> interception demo_fluxes = 0"
  by (simp add: update_water_storage_def demo_params_def demo_state_def demo_fluxes_def
      float_le_zero clip_def)

text \<open>Below zero the drought branch is taken and the three fluxes are reset.\<close>

lemma update_water_storage_drought_below_zero:
  assumes "pawater_root s + (erain f - transpiration f - soil_evap f) < 0"
  shows "case update_water_storage p s f tol of (s', f', r) \<Rightarrow>
           transpiration f' = 0 \<and> soil_evap f' = 0 \<and> et f' = interception f'"
  using assms
  by (simp add: update_water_storage_def Let_def float_le_zero split: prod.splits if_splits)

text \<open>
  Claim C2 (bounds of the two stores). With non-negative capacities, after
  \<open>update_water_storage\<close> both stores lie between zero and their capacity, whatever the
  starting state and the fluxes.
\<close>

theorem update_water_storage_bounds:
  assumes "0 \<le> wcapac_topsoil p" and "0 \<le> wcapac_root p"
  shows "case update_water_storage p s f tol of (s', f', r) \<Rightarrow>
     0 \<le> pawater_topsoil s' \<and> pawater_topsoil s' \<le> wcapac_topsoil p \<and>
     0 \<le> pawater_root s' \<and> pawater_root s' \<le> wcapac_root p"
  using assms clip_bounds [of "wcapac_topsoil p"] clip_bounds [of "wcapac_root p"]
  by (simp add: update_water_storage_def Let_def split: prod.splits if_splits)

theorem update_water_storage_bounds_witness:
  "case update_water_storage demo_params demo_state (demo_fluxes\<lparr>erain := 30\<rparr>) (1 / 10 ^ 8) of
     (s', f', r) \<Rightarrow>
       0 \<le> pawater_topsoil s' \<and> pawater_topsoil s' \<le> 50 \<and>
       0 \<le> pawater_root s' \<and> pawater_root s' \<le> 100"
  using update_water_storage_bounds
    [where p = demo_params and s = demo_state and f = "demo_fluxes\<lparr>erain := 30\<rparr>"
       and tol = "1 / 10 ^ 8"]
  by (simp add: demo_params_def)

text \<open>
  Claim C3 (runoff). The returned runoff is non-negative and is
  \<open>max 0 (r - wcapac_root)\<close> for the raw root-zone store
  \<open>r = pawater_root + erain - transpiration - soil_evap\<close>; with a capacity of 100, a store
  of 95 and a net input of 10 the runoff is 5 and the store ends at 100.
\<close>

theorem update_water_storage_runoff:
  "case update_water_storage p s f tol of (s', f', r) \<Rightarrow>
     0 \<le> r \<and>
     r = max 0 (pawater_root s + erain f - transpiration f - soil_evap f - wcapac_root p) \<and>
     (wcapac_root p = 100 \<and> pawater_root s = 95 \<and> erain f - transpiration f - soil_evap f = 10
        \<longrightarrow> r = 5 \<and> pawater_root s' = 100)"
  by (simp add: update_water_storage_def Let_def clip_def float_le_zero
      split: prod.splits if_splits)

theorem update_water_storage_runoff_witness:
  "case update_water_storage demo_params demo_state (demo_fluxes\<lparr>erain := 15\<rparr>) (1 / 10 ^ 8) of
     (s', f', r) \<Rightarrow> r = 5 \<and> pawater_root s' = 100"
  using update_water_storage_runoff
    [where p = demo_params and s = demo_state and f = "demo_fluxes\<lparr>erain := 15\<rparr>"
       and tol = "1 / 10 ^ 8"]
  by (simp add: demo_params_def demo_state_def demo_fluxes_def split: prod.splits)

subsection \<open>Infiltration\<close>

text \<open>
  Claim C8 (infiltration and interception). With \<open>lai > 0\<close> the interception is
  \<open>rain * intercep_frac * min 1 (lai / max_intercep_lai)\<close> and the effective rain is the
  rest of the rain; otherwise the effective rain is \<open>max 0 rain\<close> and nothing is
  intercepted. The quotient exists when \<open>max_intercep_lai\<close> is not zero; with a zero
  \<open>max_intercep_lai\<close> and \<open>lai > 0\<close> the division raises.
\<close>

theorem calc_infiltration_rule:
  "(0 < lai s \<and> max_intercep_lai p \<noteq> 0 \<longrightarrow>
      (\<exists>f'. calc_infiltration p s f rain = Inr f' \<and>
         interception f' = rain * intercep_frac p * min 1 (lai s / max_intercep_lai p) \<and>
         erain f' = rain - interception f')) \<and>
   (0 < lai s \<and> max_intercep_lai p = 0 \<longrightarrow>
      calc_infiltration p s f rain = Inl ZeroDivisionError) \<and>
   (\<not> 0 < lai s \<longrightarrow>
      (\<exists>f'. calc_infiltration p s f rain = Inr f' \<and>
         erain f' = max 0 rain \<and> interception f' = 0))"
  by (simp add: calc_infiltration_def py_div_def Let_def)

theorem calc_infiltration_rule_witness:
  "(\<exists>f'. calc_infiltration demo_params (demo_state\<lparr>lai := 2\<rparr>) demo_fluxes 8 = Inr f' \<and>
      interception f' = 2 \<and> erain f' = 6) \<and>
   calc_infiltration (demo_params\<lparr>max_intercep_lai := 0\<rparr>) (demo_state\<lparr>lai := 2\<rparr>) demo_fluxes 8
     = Inl ZeroDivisionError \<and>
   (\<exists>f'. calc_infiltration demo_params demo_state demo_fluxes 8 = Inr f' \<and>
      erain f' = 8 \<and> interception f' = 0)"
proof (intro conjI)
  show "\<exists>f'. calc_infiltration demo_params (demo_state\<lparr>lai := 2\<rparr>) demo_fluxes 8 = Inr f' \<and>
      interception f' = 2 \<and> erain f' = 6"
    using calc_infiltration_rule
      [where p = demo_params and s = "demo_state\<lparr>lai := 2\<rparr>" and f = demo_fluxes and rain = 8]
    by (auto simp: demo_params_def demo_state_def)
  show "calc_infiltration (demo_params\<lparr>max_intercep_lai := 0\<rparr>) (demo_state\<lparr>lai := 2\<rparr>)
      demo_fluxes 8 = Inl ZeroDivisionError"
    using calc_infiltration_rule
      [where p = "demo_params\<lparr>max_intercep_lai := 0\<rparr>" and s = "demo_state\<lparr>lai := 2\<rparr>"
         and f = demo_fluxes and rain = 8]
    by (simp add: demo_state_def)
  show "\<exists>f'. calc_infiltration demo_params demo_state demo_fluxes 8 = Inr f' \<and>
      erain f' = 8 \<and> interception f' = 0"
    using calc_infiltration_rule
      [where p = demo_params and s = demo_state and f = demo_fluxes and rain = 8]
    by (auto simp: demo_state_def)
qed

subsection \<open>Degenerate inputs\<close>

text \<open>
  Claim C5 (degenerate inputs raise). With \<open>vpd \<le> 0\<close> or \<open>ca = 0\<close> the stomatal
  conductance is not computed: \<^verbatim>\<open>math.sqrt\<close> refuses a negative deficit, and the
  divisions by \<open>sqrt 0\<close> and by \<open>ca = 0\<close> raise. With a zero capacity of either layer the
  relative saturation is not computed: the division raises. No value is returned in
  either case.
\<close>

theorem degenerate_inputs_raise:
  "(vpd \<le> 0 \<or> ca = 0 \<longrightarrow> isl (calc_stomatal_conductance K p s vpd ca daylen gpp press temp)) \<and>
   (wcapac_topsoil p = 0 \<or> wcapac_root p = 0 \<longrightarrow> isl (calculate_soil_water_fac c p s))"
proof (intro conjI impI)
  assume h: "vpd \<le> 0 \<or> ca = 0"
  show "isl (calc_stomatal_conductance K p s vpd ca daylen gpp press temp)"
  proof (cases "daylen = 0")
    case True
    then show ?thesis by (simp add: calc_stomatal_conductance_def)
  next
    case False
    show ?thesis
    proof (cases "vpd < 0")
      case True
      with False show ?thesis
        by (simp add: calc_stomatal_conductance_def py_div_nonzero py_sqrt_def)
    next
      case nneg: False
      show ?thesis
      proof (cases "vpd = 0")
        case True
        with False show ?thesis
          by (simp add: calc_stomatal_conductance_def py_div_nonzero py_sqrt_def)
      next
        case pos: False
        with nneg h have "ca = 0" and "sqrt vpd \<noteq> 0" by auto
        with False nneg show ?thesis
          by (simp add: calc_stomatal_conductance_def py_div_nonzero py_sqrt_def)
      qed
    qed
  qed
next
  assume "wcapac_topsoil p = 0 \<or> wcapac_root p = 0"
  then show "isl (calculate_soil_water_fac c p s)"
    by (cases "wcapac_topsoil p = 0") (auto simp: calculate_soil_water_fac_def py_div_nonzero)
qed

theorem degenerate_inputs_raise_witness:
  "isl (calc_stomatal_conductance demo_constants demo_params demo_state 0 380 12 5 (Some 100) 20) \<and>
   isl (calc_stomatal_conductance demo_constants demo_params demo_state (- 1) 380 12 5 (Some 100) 20) \<and>
   isl (calc_stomatal_conductance demo_constants demo_params demo_state 1 0 12 5 (Some 100) 20) \<and>
   isl (calculate_soil_water_fac demo_control (demo_params\<lparr>wcapac_topsoil := 0\<rparr>) demo_state) \<and>
   isl (calculate_soil_water_fac demo_control (demo_params\<lparr>wcapac_root := 0\<rparr>) demo_state)"
  using degenerate_inputs_raise
      [where vpd = 0 and ca = 380 and K = demo_constants and p = demo_params and s = demo_state
         and daylen = 12 and gpp = 5 and press = "Some 100" and temp = 20]
    degenerate_inputs_raise
      [where vpd = "- 1" and ca = 380 and K = demo_constants and p = demo_params and s = demo_state
         and daylen = 12 and gpp = 5 and press = "Some 100" and temp = 20]
    degenerate_inputs_raise
      [where vpd = 1 and ca = 0 and K = demo_constants and p = demo_params and s = demo_state
         and daylen = 12 and gpp = 5 and press = "Some 100" and temp = 20]
    degenerate_inputs_raise
      [where p = "demo_params\<lparr>wcapac_topsoil := 0\<rparr>" and c = demo_control and s = demo_state]
    degenerate_inputs_raise
      [where p = "demo_params\<lparr>wcapac_root := 0\<rparr>" and c = demo_control and s = demo_state]
  by (simp add: demo_params_def)

subsection \<open>Soil moisture\<close>

lemma py_pow_unit_interval:
  assumes "0 \<le> x" and "x \<le> 1" and "0 < y"
  shows "\<exists>w. py_pow x y = Inr w \<and> 0 \<le> w \<and> w \<le> 1"
proof (cases "x = 0")
  case True
  with assms show ?thesis by (simp add: py_pow_def)
next
  case False
  with assms have "py_pow x y = Inr (x powr y)" by (simp add: py_pow_def)
  moreover from assms have "x powr y \<le> 1" by (simp add: powr_le1)
  ultimately show ?thesis by simp
qed

lemma py_pow_nonneg:
  assumes "0 \<le> x" and "0 < y"
  shows "\<exists>w. py_pow x y = Inr w \<and> 0 \<le> w"
  using assms by (cases "x = 0") (simp_all add: py_pow_def)

lemma calc_sw_modifier_unit_interval:
  assumes "0 \<le> theta" and "theta \<le> 1" and "0 < cth" and "0 < nexp"
  shows "\<exists>w. calc_sw_modifier theta (Some cth) (Some nexp) = Inr w \<and> 0 \<le> w \<and> w \<le> 1"
proof -
  from assms have q: "0 \<le> (1 - theta) / cth" by simp
  from py_pow_nonneg [OF q \<open>0 < nexp\<close>]
  obtain v where v: "py_pow ((1 - theta) / cth) nexp = Inr v" "0 \<le> v" by blast
  then have "1 + v \<noteq> 0" and "1 / (1 + v) \<le> 1" and "0 \<le> 1 / (1 + v)" by simp_all
  with v assms show ?thesis
    by (simp add: calc_sw_modifier_def py_div_nonzero)
qed

text \<open>
  Claim C9 (bounds of the stress factor). When both relative saturations lie in \<open>[0, 1]\<close>,
  stress model 0 with \<open>qs > 0\<close> and stress model 1 with positive \<open>ctheta\<close> and
  \<open>ntheta\<close> in both layers return a pair of factors, each in \<open>[0, 1]\<close>.
\<close>

theorem calculate_soil_water_fac_unit_interval:
  assumes "wcapac_topsoil p \<noteq> 0" and "wcapac_root p \<noteq> 0"
    and "0 \<le> pawater_topsoil s / wcapac_topsoil p" and "pawater_topsoil s / wcapac_topsoil p \<le> 1"
    and "0 \<le> pawater_root s / wcapac_root p" and "pawater_root s / wcapac_root p \<le> 1"
    and "sw_stress_model c = 0 \<and> 0 < qs p \<or>
         sw_stress_model c = 1 \<and>
           ctheta_topsoil p = Some ct \<and> ntheta_topsoil p = Some nt \<and>
           ctheta_root p = Some cr \<and> ntheta_root p = Some nr \<and>
           0 < ct \<and> 0 < nt \<and> 0 < cr \<and> 0 < nr"
  shows "\<exists>wt wr. calculate_soil_water_fac c p s = Inr (wt, wr) \<and>
           0 \<le> wt \<and> wt \<le> 1 \<and> 0 \<le> wr \<and> wr \<le> 1"
  using assms(7)
proof (elim disjE conjE)
  assume m: "sw_stress_model c = 0" and q: "0 < qs p"
  from py_pow_unit_interval [OF assms(3,4) q] py_pow_unit_interval [OF assms(5,6) q]
  obtain wt wr where "py_pow (pawater_topsoil s / wcapac_topsoil p) (qs p) = Inr wt"
      "0 \<le> wt" "wt \<le> 1" "py_pow (pawater_root s / wcapac_root p) (qs p) = Inr wr"
      "0 \<le> wr" "wr \<le> 1" by blast
  with m assms(1,2) show ?thesis
    by (simp add: calculate_soil_water_fac_def py_div_nonzero)
next
  assume m: "sw_stress_model c = 1"
    and k: "ctheta_topsoil p = Some ct" "ntheta_topsoil p = Some nt"
      "ctheta_root p = Some cr" "ntheta_root p = Some nr"
    and pos: "0 < ct" "0 < nt" "0 < cr" "0 < nr"
  from calc_sw_modifier_unit_interval [OF assms(3,4) pos(1,2)]
    calc_sw_modifier_unit_interval [OF assms(5,6) pos(3,4)]
  obtain wt wr where
      "calc_sw_modifier (pawater_topsoil s / wcapac_topsoil p) (Some ct) (Some nt) = Inr wt"
      "0 \<le> wt" "wt \<le> 1"
      "calc_sw_modifier (pawater_root s / wcapac_root p) (Some cr) (Some nr) = Inr wr"
      "0 \<le> wr" "wr \<le> 1" by blast
  with m k assms(1,2) show ?thesis
    by (simp add: calculate_soil_water_fac_def py_div_nonzero)
qed

theorem calculate_soil_water_fac_unit_interval_witness:
  "(\<exists>wt wr. calculate_soil_water_fac (demo_control\<lparr>sw_stress_model := 0\<rparr>) demo_params demo_state
       = Inr (wt, wr) \<and> 0 \<le> wt \<and> wt \<le> 1 \<and> 0 \<le> wr \<and> wr \<le> 1) \<and>
   (\<exists>wt wr. calculate_soil_water_fac demo_control
       (demo_params\<lparr>ctheta_topsoil := Some 0.4, ntheta_topsoil := Some 3,
          ctheta_root := Some 0.7, ntheta_root := Some 9\<rparr>) demo_state
       = Inr (wt, wr) \<and> 0 \<le> wt \<and> wt \<le> 1 \<and> 0 \<le> wr \<and> wr \<le> 1)"
proof (intro conjI)
  show "\<exists>wt wr. calculate_soil_water_fac (demo_control\<lparr>sw_stress_model := 0\<rparr>) demo_params
       demo_state = Inr (wt, wr) \<and> 0 \<le> wt \<and> wt \<le> 1 \<and> 0 \<le> wr \<and> wr \<le> 1"
    by (rule calculate_soil_water_fac_unit_interval)
      (simp_all add: demo_control_def demo_params_def demo_state_def)
  show "\<exists>wt wr. calculate_soil_water_fac demo_control
       (demo_params\<lparr>ctheta_topsoil := Some 0.4, ntheta_topsoil := Some 3,
          ctheta_root := Some 0.7, ntheta_root := Some 9\<rparr>) demo_state
       = Inr (wt, wr) \<and> 0 \<le> wt \<and> wt \<le> 1 \<and> 0 \<le> wr \<and> wr \<le> 1"
    by (rule calculate_soil_water_fac_unit_interval
          [where ct = "0.4" and nt = 3 and cr = "0.7" and nr = 9])
      (simp_all add: demo_control_def demo_params_def demo_state_def)
qed

lemma bind_res_eq_Inr: "bind_res m k = Inr y \<longleftrightarrow> (\<exists>v. m = Inr v \<and> k v = Inr y)"
  by (cases m) simp_all

lemma initialise_hydraulics_keeps:
  assumes "initialise_hydraulics c p = Inr p4"
  shows "ctheta_topsoil p4 = ctheta_topsoil p \<and> ntheta_topsoil p4 = ntheta_topsoil p \<and>
         ctheta_root p4 = ctheta_root p \<and> ntheta_root p4 = ntheta_root p"
proof (cases "calc_sw_params c")
  case False
  with assms show ?thesis by (simp add: initialise_hydraulics_def)
next
  case True
  with assms obtain a1 a2 a3 a4 a5 b1 b2 b3 b4 b5 where
    "p4 = p\<lparr>theta_sat_topsoil := a3, b_topsoil := a4, psi_sat_topsoil := a5,
             wcapac_topsoil := topsoil_depth p * (a1 - a2),
             theta_sat_root := b3, b_root := b4, psi_sat_root := b5,
             wcapac_root := rooting_depth p * (b1 - b2)\<rparr>"
    by (auto simp: initialise_hydraulics_def bind_res_eq_Inr Let_def split: prod.splits)
  then show ?thesis by simp
qed

lemma initialise_hydraulics_off: "\<not> calc_sw_params c \<Longrightarrow> initialise_hydraulics c p = Inr p"
  by (simp add: initialise_hydraulics_def)

lemma get_soil_params_clay: "get_soil_params ''clay'' = Inr (0.4, 3)"
  by (simp add: get_soil_params_def)

lemma get_soil_params_sand: "get_soil_params ''sand'' = Inr (0.7, 9)"
  by (simp add: get_soil_params_def)

text \<open>
  Claim C10 (the Landsberg-Waring parameters are derived all or nothing). When
  \<open>initialise_parameters\<close> returns, the four parameters are the table's values for the
  two soil types if all four were unset, and are the four given values, set or unset, if
  any one of them was set. Without the texture-based hydraulic parameters and with one
  of the four set, the call returns the parameters unchanged.
\<close>

theorem initialise_parameters_all_or_nothing:
  "(initialise_parameters c p = Inr p' \<and>
      ctheta_topsoil p = None \<and> ntheta_topsoil p = None \<and>
      ctheta_root p = None \<and> ntheta_root p = None \<longrightarrow>
      (\<exists>ct nt cr nr.
         get_soil_params (topsoil_type p) = Inr (ct, nt) \<and>
         get_soil_params (rootsoil_type p) = Inr (cr, nr) \<and>
         ctheta_topsoil p' = Some ct \<and> ntheta_topsoil p' = Some nt \<and>
         ctheta_root p' = Some cr \<and> ntheta_root p' = Some nr)) \<and>
   (initialise_parameters c p = Inr p' \<and>
      \<not> (ctheta_topsoil p = None \<and> ntheta_topsoil p = None \<and>
         ctheta_root p = None \<and> ntheta_root p = None) \<longrightarrow>
      ctheta_topsoil p' = ctheta_topsoil p \<and> ntheta_topsoil p' = ntheta_topsoil p \<and>
      ctheta_root p' = ctheta_root p \<and> ntheta_root p' = ntheta_root p) \<and>
   (\<not> calc_sw_params c \<and>
      \<not> (ctheta_topsoil p = None \<and> ntheta_topsoil p = None \<and>
         ctheta_root p = None \<and> ntheta_root p = None) \<longrightarrow>
      initialise_parameters c p = Inr p)"
proof -
  have all_unset: "\<exists>ct nt cr nr.
         get_soil_params (topsoil_type p) = Inr (ct, nt) \<and>
         get_soil_params (rootsoil_type p) = Inr (cr, nr) \<and>
         ctheta_topsoil p' = Some ct \<and> ntheta_topsoil p' = Some nt \<and>
         ctheta_root p' = Some cr \<and> ntheta_root p' = Some nr"
    if h: "initialise_parameters c p = Inr p' \<and>
      ctheta_topsoil p = None \<and> ntheta_topsoil p = None \<and>
      ctheta_root p = None \<and> ntheta_root p = None"
  proof -
    from h obtain p4 where p4: "initialise_hydraulics c p = Inr p4"
      by (auto simp: initialise_parameters_def bind_res_eq_Inr)
    from initialise_hydraulics_keeps [OF p4] h
  have unset: "ctheta_topsoil p4 = None \<and> ntheta_topsoil p4 = None \<and>
      ctheta_root p4 = None \<and> ntheta_root p4 = None" by simp
  from h p4 unset obtain ct nt cr nr where
    "get_soil_params (topsoil_type p) = Inr (ct, nt)"
    "get_soil_params (rootsoil_type p) = Inr (cr, nr)"
    "p' = p4\<lparr>ctheta_topsoil := Some ct, ntheta_topsoil := Some nt,
              ctheta_root := Some cr, ntheta_root := Some nr\<rparr>"
    by (auto simp: initialise_parameters_def bind_res_eq_Inr Let_def split: prod.splits)
    then show ?thesis by simp
  qed
  have some_set: "ctheta_topsoil p' = ctheta_topsoil p \<and> ntheta_topsoil p' = ntheta_topsoil p \<and>
      ctheta_root p' = ctheta_root p \<and> ntheta_root p' = ntheta_root p"
    if h: "initialise_parameters c p = Inr p' \<and>
      \<not> (ctheta_topsoil p = None \<and> ntheta_topsoil p = None \<and>
         ctheta_root p = None \<and> ntheta_root p = None)"
  proof -
    from h obtain p4 where p4: "initialise_hydraulics c p = Inr p4"
      by (auto simp: initialise_parameters_def bind_res_eq_Inr)
    note keep = initialise_hydraulics_keeps [OF p4]
  with h have set: "\<not> (ctheta_topsoil p4 = None \<and> ntheta_topsoil p4 = None \<and>
      ctheta_root p4 = None \<and> ntheta_root p4 = None)" by simp
  from h p4 have "(if ctheta_topsoil p4 = None \<and> ntheta_topsoil p4 = None \<and>
         ctheta_root p4 = None \<and> ntheta_root p4 = None
      then bind_res (get_soil_params (topsoil_type p)) (\<lambda>(c_top, n_top).
        let p5 = p4\<lparr>ctheta_topsoil := Some c_top, ntheta_topsoil := Some n_top\<rparr> in
        bind_res (get_soil_params (rootsoil_type p)) (\<lambda>(c_root, n_root).
        Inr (p5\<lparr>ctheta_root := Some c_root, ntheta_root := Some n_root\<rparr>)))
      else Inr p4) = Inr p'"
    by (simp add: initialise_parameters_def Let_def)
  with set have "p' = p4" by (simp only: if_False sum.inject)
    with keep show ?thesis by simp
  qed
  have unchanged: "initialise_parameters c p = Inr p"
    if h: "\<not> calc_sw_params c \<and>
      \<not> (ctheta_topsoil p = None \<and> ntheta_topsoil p = None \<and>
         ctheta_root p = None \<and> ntheta_root p = None)"
  proof -
    from h have "initialise_hydraulics c p = Inr p" by (simp add: initialise_hydraulics_off)
    with h show ?thesis by (auto simp: initialise_parameters_def Let_def)
  qed
  from all_unset some_set unchanged show ?thesis by blast
qed

theorem initialise_parameters_all_or_nothing_witness:
  "initialise_parameters demo_control demo_params =
     Inr (demo_params\<lparr>ctheta_topsoil := Some 0.4, ntheta_topsoil := Some 3,
            ctheta_root := Some 0.7, ntheta_root := Some 9\<rparr>) \<and>
   initialise_parameters demo_control (demo_params\<lparr>ntheta_root := Some 9\<rparr>) =
     Inr (demo_params\<lparr>ntheta_root := Some 9\<rparr>) \<and>
   ctheta_topsoil (demo_params\<lparr>ntheta_root := Some 9\<rparr>) = None \<and>
   ntheta_topsoil (demo_params\<lparr>ntheta_root := Some 9\<rparr>) = None \<and>
   ctheta_root (demo_params\<lparr>ntheta_root := Some 9\<rparr>) = None"
proof -
  have run: "initialise_parameters demo_control demo_params =
     Inr (demo_params\<lparr>ctheta_topsoil := Some 0.4, ntheta_topsoil := Some 3,
            ctheta_root := Some 0.7, ntheta_root := Some 9\<rparr>)"
    by (simp add: initialise_parameters_def initialise_hydraulics_def demo_control_def
        demo_params_def get_soil_params_clay get_soil_params_sand)
  have "\<exists>ct nt cr nr.
         get_soil_params (topsoil_type demo_params) = Inr (ct, nt) \<and>
         get_soil_params (rootsoil_type demo_params) = Inr (cr, nr) \<and>
         ctheta_topsoil (demo_params\<lparr>ctheta_topsoil := Some 0.4, ntheta_topsoil := Some 3,
            ctheta_root := Some 0.7, ntheta_root := Some 9\<rparr>) = Some ct \<and>
         ntheta_topsoil (demo_params\<lparr>ctheta_topsoil := Some 0.4, ntheta_topsoil := Some 3,
            ctheta_root := Some 0.7, ntheta_root := Some 9\<rparr>) = Some nt \<and>
         ctheta_root (demo_params\<lparr>ctheta_topsoil := Some 0.4, ntheta_topsoil := Some 3,
            ctheta_root := Some 0.7, ntheta_root := Some 9\<rparr>) = Some cr \<and>
         ntheta_root (demo_params\<lparr>ctheta_topsoil := Some 0.4, ntheta_topsoil := Some 3,
            ctheta_root := Some 0.7, ntheta_root := Some 9\<rparr>) = Some nr"
    using run initialise_parameters_all_or_nothing
      [where c = demo_control and p = demo_params
         and p' = "demo_params\<lparr>ctheta_topsoil := Some 0.4, ntheta_topsoil := Some 3,
            ctheta_root := Some 0.7, ntheta_root := Some 9\<rparr>"]
    by (simp add: demo_params_def)
  moreover have "initialise_parameters demo_control (demo_params\<lparr>ntheta_root := Some 9\<rparr>) =
     Inr (demo_params\<lparr>ntheta_root := Some 9\<rparr>)"
    using initialise_parameters_all_or_nothing
      [where c = demo_control and p = "demo_params\<lparr>ntheta_root := Some 9\<rparr>"]
    by (simp add: demo_control_def)
  ultimately show ?thesis using run by (simp add: demo_params_def)
qed

subsection \<open>Evaporation rates\<close>

lemma slope_value:
  assumes "tavg + 237.3 \<noteq> 0"
  shows "\<exists>sl. calc_slope_of_saturation_vapour_pressure_curve tavg = Inr sl \<and> 0 < sl"
proof -
  define t where "t = tavg + 237.3"
  define q where "q = 17.27 * tavg / t"
  have t: "t \<noteq> 0" unfolding t_def by (rule assms)
  then have sq: "0 < t ^ 2" by (rule zero_less_power2 [THEN iffD2])
  then have sq0: "t ^ 2 \<noteq> 0" by (rule less_imp_neq [THEN not_sym])
  have "0 < 4098 * (0.6108 * exp q)" by (intro mult_pos_pos exp_gt_zero) simp_all
  then have pos: "0 < 4098 * (0.6108 * exp q) / t ^ 2" using sq by (rule divide_pos_pos)
  have "calc_slope_of_saturation_vapour_pressure_curve tavg
          = Inr (4098 * (0.6108 * exp q) / t ^ 2)"
    unfolding calc_slope_of_saturation_vapour_pressure_curve_def Let_def t_def [symmetric]
    by (simp only: py_div_nonzero [OF t] py_div_nonzero [OF sq0] py_pow_two bind_res_Inr q_def)
  with pos show ?thesis by blast
qed

lemma gamma_value:
  assumes "0 < pr" and "0 < pm_cp P" and "0 < pm_epsilon P" and "0 < lambdax"
  shows "\<exists>g. calc_pyschrometric_constant P lambdax (Some pr) = Inr g \<and> 0 < g"
  using assms by (simp add: calc_pyschrometric_constant_def py_div_nonzero)

lemma Penman_value:
  assumes "calc_slope_of_saturation_vapour_pressure_curve tavg = Inr sl" and "0 < sl"
    and "calc_pyschrometric_constant P (calc_latent_heat_of_vapourisation tavg) (Some pr) = Inr g"
    and "0 < g" and "0 < calc_latent_heat_of_vapourisation tavg"
  shows "Penman_calc_evaporation P net_rad tavg (Some pr) =
           Inr (sl / (sl + g) * net_rad / calc_latent_heat_of_vapourisation tavg)"
proof -
  from assms have "sl + g \<noteq> 0" and "calc_latent_heat_of_vapourisation tavg \<noteq> 0" by simp_all
  with assms(1,3) show ?thesis
    by (simp add: Penman_calc_evaporation_def resolve_press_def Let_def py_div_nonzero)
qed

lemma PriestleyTaylor_value:
  assumes "calc_slope_of_saturation_vapour_pressure_curve tavg = Inr sl" and "0 < sl"
    and "calc_pyschrometric_constant P (calc_latent_heat_of_vapourisation tavg) (Some pr) = Inr g"
    and "0 < g" and "0 < calc_latent_heat_of_vapourisation tavg"
  shows "PriestleyTaylor_calc_evaporation P net_rad tavg (Some pr) pt_coeff =
           Inr (pt_coeff / calc_latent_heat_of_vapourisation tavg * (sl / (sl + g)) * net_rad)"
proof -
  from assms have "sl + g \<noteq> 0" and "calc_latent_heat_of_vapourisation tavg \<noteq> 0" by simp_all
  with assms(1,3) show ?thesis
    by (simp add: PriestleyTaylor_calc_evaporation_def Let_def py_div_nonzero)
qed

lemma PenmanMonteith_value:
  assumes "calc_slope_of_saturation_vapour_pressure_curve tavg = Inr sl" and "0 < sl"
    and "calc_pyschrometric_constant P (calc_latent_heat_of_vapourisation tavg) (Some pr) = Inr g"
    and "0 < g" and "0 < calc_latent_heat_of_vapourisation tavg"
    and "0 < gs" and "0 \<le> ga"
  shows "PenmanMonteith_calc_evaporation P vpd wind gs net_rad tavg (Some pr) canht_opt (Some ga) =
           Inr ((sl * net_rad + calc_density_of_air tavg * pm_cp P * vpd * ga)
                  / (sl + g * (1 + ga / gs)) / calc_latent_heat_of_vapourisation tavg,
                (sl / g + 1) / (sl / g + 1 + ga / gs))"
proof -
  from assms have r: "0 \<le> ga / gs" by simp
  then have "0 < 1 + ga / gs" by simp
  with assms(4) have "0 < g * (1 + ga / gs)" by (rule mult_pos_pos)
  with assms(2) have "0 < sl + g * (1 + ga / gs)" by (rule add_pos_pos)
  then have a2: "sl + g * (1 + ga / gs) \<noteq> 0" by simp
  from assms have "0 < sl / g" by simp
  with r have "0 < sl / g + 1 + ga / gs" by (simp add: add_pos_nonneg)
  then have om: "sl / g + 1 + ga / gs \<noteq> 0" by simp
  from assms have nz: "g \<noteq> 0" "gs \<noteq> 0" "calc_latent_heat_of_vapourisation tavg \<noteq> 0"
    by simp_all
  from assms(1,3,6) nz a2 om show ?thesis
    by (simp add: PenmanMonteith_calc_evaporation_def resolve_press_def Let_def py_div_nonzero
        float_gt_zero)
qed

lemma full_vs_equilibrium:
  fixes sl g lam gs ga nr A :: real
  assumes "0 < sl" and "0 < g" and "0 < lam" and "0 < gs" and "0 < ga"
  shows "sl / (sl + g) * nr / lam \<le> (sl * nr + A * ga) / (sl + g * (1 + ga / gs)) / lam
           \<longleftrightarrow> sl * g * nr \<le> A * gs * (sl + g)"
proof -
  from assms have D: "0 < sl + g" by simp
  from assms have "0 < 1 + ga / gs" by (simp add: add_pos_pos)
  with assms(2) have "0 < g * (1 + ga / gs)" by (rule mult_pos_pos)
  with assms(1) have E: "0 < sl + g * (1 + ga / gs)" by (rule add_pos_pos)
  have cancel: "x / lam \<le> y / lam \<longleftrightarrow> x \<le> y" for x y
    using assms(3) by (simp add: divide_le_cancel)
  have "sl / (sl + g) * nr / lam \<le> (sl * nr + A * ga) / (sl + g * (1 + ga / gs)) / lam
        \<longleftrightarrow> sl / (sl + g) * nr \<le> (sl * nr + A * ga) / (sl + g * (1 + ga / gs))"
    by (rule cancel)
  also have "\<dots> \<longleftrightarrow> sl * nr / (sl + g) \<le> (sl * nr + A * ga) / (sl + g * (1 + ga / gs))"
    by simp
  also have "\<dots> \<longleftrightarrow> sl * nr \<le> (sl * nr + A * ga) / (sl + g * (1 + ga / gs)) * (sl + g)"
    using D by (rule pos_divide_le_eq)
  also have "\<dots> \<longleftrightarrow> sl * nr \<le> (sl * nr + A * ga) * (sl + g) / (sl + g * (1 + ga / gs))"
    by simp
  also have "\<dots> \<longleftrightarrow> sl * nr * (sl + g * (1 + ga / gs)) \<le> (sl * nr + A * ga) * (sl + g)"
    using E by (rule pos_le_divide_eq)
  also have "\<dots> \<longleftrightarrow> sl * nr * g * (ga / gs) \<le> A * ga * (sl + g)"
    by (simp add: algebra_simps)
  also have "\<dots> \<longleftrightarrow> sl * nr * g * ga \<le> A * ga * (sl + g) * gs"
    using assms(4) by (simp add: pos_divide_le_eq)
  also have "\<dots> \<longleftrightarrow> ga * (sl * g * nr) \<le> ga * (A * gs * (sl + g))"
    by (simp add: mult_ac)
  also have "\<dots> \<longleftrightarrow> sl * g * nr \<le> A * gs * (sl + g)"
    using assms(5) by (simp only: mult_le_cancel_left_pos)
  finally show ?thesis .
qed

lemma iff_neg_less: "(a \<le> b \<longleftrightarrow> Q) \<Longrightarrow> \<not> Q \<Longrightarrow> b < (a::real)"
  by auto

lemma slope_at_zero:
  "calc_slope_of_saturation_vapour_pressure_curve 0 = Inr (4098 * 0.6108 / (237.3 * 237.3))"
  by (simp add: calc_slope_of_saturation_vapour_pressure_curve_def py_div_def py_pow_two
      power2_eq_square)

lemma gamma_at_zero:
  "calc_pyschrometric_constant PenmanMonteith_init (calc_latent_heat_of_vapourisation 0) (Some 100)
     = Inr (0.1013 / (0.6222 * 2.501))"
  by (simp add: calc_pyschrometric_constant_def calc_latent_heat_of_vapourisation_def
      PenmanMonteith_init_def py_div_def)

text \<open>
  Against claim C6 as stated: at 0 degC and 100 kPa, with a net radiation of
  \<open>0.0005\<close> MJ m-2 s-1, a deficit of \<open>0.5\<close> kPa, \<open>gs = 0.005\<close> and \<open>ga = 0.05\<close> m s-1,
  both models return a rate and the full Penman-Monteith rate is strictly below the
  equilibrium rate.
\<close>

theorem full_below_equilibrium_example:
  "\<not> isl (PenmanMonteith_calc_evaporation PenmanMonteith_init 0.5 2 0.005 0.0005 0 (Some 100)
            None (Some 0.05)) \<and>
   \<not> isl (Penman_calc_evaporation PenmanMonteith_init 0.0005 0 (Some 100)) \<and>
   fst (projr (PenmanMonteith_calc_evaporation PenmanMonteith_init 0.5 2 0.005 0.0005 0 (Some 100)
            None (Some 0.05)))
     < projr (Penman_calc_evaporation PenmanMonteith_init 0.0005 0 (Some 100))"
proof -
  let ?sl = "4098 * 0.6108 / (237.3 * 237.3) :: real"
  let ?g = "0.1013 / (0.6222 * 2.501) :: real"
  let ?lam = "calc_latent_heat_of_vapourisation 0"
  let ?A = "calc_density_of_air 0 * pm_cp PenmanMonteith_init * 0.5"
  have sl: "0 < ?sl" and g: "0 < ?g" by simp_all
  have lam: "0 < ?lam" by (simp add: calc_latent_heat_of_vapourisation_def)
  have gs: "(0::real) < 0.005" and ga: "(0::real) < 0.05" and ga0: "(0::real) \<le> 0.05"
    by simp_all
  note pm = PenmanMonteith_value [OF slope_at_zero sl gamma_at_zero g lam gs ga0,
      of "0.5" 2 "0.0005" None]
  note pe = Penman_value [OF slope_at_zero sl gamma_at_zero g lam, of "0.0005"]
  have cmp: "\<not> ?sl * ?g * 0.0005 \<le> ?A * 0.005 * (?sl + ?g)"
    by (simp add: calc_density_of_air_def PenmanMonteith_init_def)
  have less: "(?sl * 0.0005 + ?A * 0.05) / (?sl + ?g * (1 + 0.05 / 0.005)) / ?lam
          < ?sl / (?sl + ?g) * 0.0005 / ?lam"
    by (rule iff_neg_less [OF full_vs_equilibrium [OF sl g lam gs ga, of "0.0005" ?A] cmp])
  show ?thesis
    unfolding pm pe using less by (simp only: sum.sel sum.disc fst_conv simp_thms)
qed

text \<open>
  Claim C6 (full against equilibrium evaporation), as amended. For positive \<open>gs\<close>,
  \<open>ga\<close>, deficit and pressure, a temperature at which the latent heat is positive and
  the slope is defined, both models return a rate, and the full rate is at least the
  equilibrium rate exactly when
  \<open>slope * gamma * net_rad \<le> rho * cp * vpd * gs * (slope + gamma)\<close>.
\<close>

theorem full_vs_equilibrium_evaporation:
  assumes "0 < gs" and "0 < ga" and "0 < vpd"
    and "0 < pr" and "0 < pm_cp P" and "0 < pm_epsilon P"
    and "tavg + 237.3 \<noteq> 0" and "0 < calc_latent_heat_of_vapourisation tavg"
  shows "\<exists>et om ep sl g.
           PenmanMonteith_calc_evaporation P vpd wind gs net_rad tavg (Some pr) canht_opt (Some ga)
             = Inr (et, om) \<and>
           Penman_calc_evaporation P net_rad tavg (Some pr) = Inr ep \<and>
           calc_slope_of_saturation_vapour_pressure_curve tavg = Inr sl \<and>
           calc_pyschrometric_constant P (calc_latent_heat_of_vapourisation tavg) (Some pr) = Inr g \<and>
           (ep \<le> et \<longleftrightarrow>
              sl * g * net_rad \<le> calc_density_of_air tavg * pm_cp P * vpd * gs * (sl + g))"
proof -
  from slope_value [OF assms(7)] obtain sl
    where sl: "calc_slope_of_saturation_vapour_pressure_curve tavg = Inr sl" "0 < sl" by blast
  from gamma_value [OF assms(4,5,6,8)] obtain g
    where g: "calc_pyschrometric_constant P (calc_latent_heat_of_vapourisation tavg) (Some pr) = Inr g"
      "0 < g" by blast
  from assms(2) have ga0: "0 \<le> ga" by simp
  note pm = PenmanMonteith_value [OF sl g assms(8,1) ga0, of vpd wind net_rad canht_opt]
  note pe = Penman_value [OF sl g assms(8), of net_rad]
  note cmp = full_vs_equilibrium [OF sl(2) g(2) assms(8,1,2),
      of net_rad "calc_density_of_air tavg * pm_cp P * vpd"]
  from pm pe sl(1) g(1) cmp show ?thesis by simp
qed

theorem full_vs_equilibrium_evaporation_witness:
  "\<exists>et om ep sl g.
     PenmanMonteith_calc_evaporation PenmanMonteith_init 0.5 2 0.005 0.0005 0 (Some 100) None
       (Some 0.05) = Inr (et, om) \<and>
     Penman_calc_evaporation PenmanMonteith_init 0.0005 0 (Some 100) = Inr ep \<and>
     calc_slope_of_saturation_vapour_pressure_curve 0 = Inr sl \<and>
     calc_pyschrometric_constant PenmanMonteith_init (calc_latent_heat_of_vapourisation 0)
       (Some 100) = Inr g \<and>
     (ep \<le> et \<longleftrightarrow>
        sl * g * 0.0005
          \<le> calc_density_of_air 0 * pm_cp PenmanMonteith_init * 0.5 * 0.005 * (sl + g))"
  by (rule full_vs_equilibrium_evaporation)
    (simp_all add: PenmanMonteith_init_def calc_latent_heat_of_vapourisation_def)

lemma PenmanMonteith_closed:
  assumes "calc_slope_of_saturation_vapour_pressure_curve tavg = Inr sl"
    and "calc_pyschrometric_constant P (calc_latent_heat_of_vapourisation tavg) (Some pr) = Inr g"
    and "\<not> 0 < gs"
  shows "PenmanMonteith_calc_evaporation P vpd wind gs net_rad tavg (Some pr) canht_opt (Some ga)
           = Inr (0, 0)"
  using assms
  by (simp add: PenmanMonteith_calc_evaporation_def resolve_press_def Let_def float_gt_zero)

text \<open>
  Against claim C7 as stated: with \<open>gs = 0\<close> the full model returns the rate \<open>0\<close> for
  a net radiation of \<open>0.0001\<close> and of \<open>0.0005\<close> MJ m-2 s-1 alike.
\<close>

theorem closed_stomata_not_increasing:
  "PenmanMonteith_calc_evaporation PenmanMonteith_init 0.5 2 0 0.0001 0 (Some 100) None (Some 0.05)
     = Inr (0, 0) \<and>
   PenmanMonteith_calc_evaporation PenmanMonteith_init 0.5 2 0 0.0005 0 (Some 100) None (Some 0.05)
     = Inr (0, 0)"
proof -
  have "\<not> (0::real) < 0" by simp
  from PenmanMonteith_closed [OF slope_at_zero gamma_at_zero this] show ?thesis by simp
qed

lemma scaled_strict_mono:
  fixes a b c d x y :: real
  assumes "x < y" and "0 < a" and "0 < c" and "0 < d"
  shows "(a * x + b) / c / d < (a * y + b) / c / d"
proof -
  from assms(1,2) have "a * x < a * y" by simp
  then have "a * x + b < a * y + b" by simp
  then have "(a * x + b) / c < (a * y + b) / c" using assms(3) by (rule divide_strict_right_mono)
  then show ?thesis using assms(4) by (rule divide_strict_right_mono)
qed

text \<open>
  Claim C7 (monotonicity in net radiation), as amended. For a positive pressure and a
  temperature at which the latent heat is positive and the slope is defined, a larger
  net radiation gives a strictly larger rate in the equilibrium model, in the
  Priestley-Taylor model with a positive coefficient, and in the full model when
  \<open>gs > 0\<close> and \<open>ga \<ge> 0\<close>.
\<close>

theorem evaporation_strictly_increasing:
  assumes "nr1 < nr2"
    and "0 < pr" and "0 < pm_cp P" and "0 < pm_epsilon P"
    and "tavg + 237.3 \<noteq> 0" and "0 < calc_latent_heat_of_vapourisation tavg"
  shows "(0 < gs \<and> 0 \<le> ga \<longrightarrow>
           (\<exists>e1 o1 e2 o2.
              PenmanMonteith_calc_evaporation P vpd wind gs nr1 tavg (Some pr) canht_opt (Some ga)
                = Inr (e1, o1) \<and>
              PenmanMonteith_calc_evaporation P vpd wind gs nr2 tavg (Some pr) canht_opt (Some ga)
                = Inr (e2, o2) \<and> e1 < e2)) \<and>
         (\<exists>e1 e2. Penman_calc_evaporation P nr1 tavg (Some pr) = Inr e1 \<and>
              Penman_calc_evaporation P nr2 tavg (Some pr) = Inr e2 \<and> e1 < e2) \<and>
         (0 < pt_coeff \<longrightarrow>
           (\<exists>e1 e2. PriestleyTaylor_calc_evaporation P nr1 tavg (Some pr) pt_coeff = Inr e1 \<and>
              PriestleyTaylor_calc_evaporation P nr2 tavg (Some pr) pt_coeff = Inr e2 \<and> e1 < e2))"
proof -
  let ?lam = "calc_latent_heat_of_vapourisation tavg"
  from slope_value [OF assms(5)] obtain sl
    where sl: "calc_slope_of_saturation_vapour_pressure_curve tavg = Inr sl" "0 < sl" by blast
  from gamma_value [OF assms(2,3,4,6)] obtain g
    where g: "calc_pyschrometric_constant P ?lam (Some pr) = Inr g" "0 < g" by blast
  from sl(2) g(2) have frac: "0 < sl / (sl + g)" by simp
  have full: "\<exists>e1 o1 e2 o2.
      PenmanMonteith_calc_evaporation P vpd wind gs nr1 tavg (Some pr) canht_opt (Some ga)
        = Inr (e1, o1) \<and>
      PenmanMonteith_calc_evaporation P vpd wind gs nr2 tavg (Some pr) canht_opt (Some ga)
        = Inr (e2, o2) \<and> e1 < e2"
    if h: "0 < gs \<and> 0 \<le> ga"
  proof -
    from h have gs: "0 < gs" and ga: "0 \<le> ga" by simp_all
    then have "0 < 1 + ga / gs" by (simp add: add_pos_nonneg)
    with g(2) have "0 < g * (1 + ga / gs)" by (rule mult_pos_pos)
    with sl(2) have E: "0 < sl + g * (1 + ga / gs)" by (rule add_pos_pos)
    note v1 = PenmanMonteith_value [OF sl g assms(6) gs ga, of vpd wind nr1 canht_opt]
    note v2 = PenmanMonteith_value [OF sl g assms(6) gs ga, of vpd wind nr2 canht_opt]
    note lt = scaled_strict_mono [OF assms(1) sl(2) E assms(6),
        of "calc_density_of_air tavg * pm_cp P * vpd * ga"]
    from v1 v2 lt show ?thesis by blast
  qed
  have equilibrium: "\<exists>e1 e2. Penman_calc_evaporation P nr1 tavg (Some pr) = Inr e1 \<and>
      Penman_calc_evaporation P nr2 tavg (Some pr) = Inr e2 \<and> e1 < e2"
  proof -
    from assms(1) frac have "sl / (sl + g) * nr1 < sl / (sl + g) * nr2"
      by (rule mult_strict_left_mono)
    then have "sl / (sl + g) * nr1 / ?lam < sl / (sl + g) * nr2 / ?lam"
      using assms(6) by (rule divide_strict_right_mono)
    with Penman_value [OF sl g assms(6), of nr1] Penman_value [OF sl g assms(6), of nr2]
    show ?thesis by blast
  qed
  have priestley: "\<exists>e1 e2. PriestleyTaylor_calc_evaporation P nr1 tavg (Some pr) pt_coeff = Inr e1 \<and>
      PriestleyTaylor_calc_evaporation P nr2 tavg (Some pr) pt_coeff = Inr e2 \<and> e1 < e2"
    if h: "0 < pt_coeff"
  proof -
    from h assms(6) have "0 < pt_coeff / ?lam" by simp
    then have "0 < pt_coeff / ?lam * (sl / (sl + g))" using frac by (rule mult_pos_pos)
    with assms(1) have "pt_coeff / ?lam * (sl / (sl + g)) * nr1
        < pt_coeff / ?lam * (sl / (sl + g)) * nr2" by (rule mult_strict_left_mono)
    with PriestleyTaylor_value [OF sl g assms(6), of nr1 pt_coeff]
      PriestleyTaylor_value [OF sl g assms(6), of nr2 pt_coeff]
    show ?thesis by blast
  qed
  from full equilibrium priestley show ?thesis by blast
qed

theorem evaporation_strictly_increasing_witness:
  "(\<exists>e1 o1 e2 o2.
      PenmanMonteith_calc_evaporation PenmanMonteith_init 0.5 2 0.005 0.0001 20 (Some 100) None
        (Some 0.05) = Inr (e1, o1) \<and>
      PenmanMonteith_calc_evaporation PenmanMonteith_init 0.5 2 0.005 0.0005 20 (Some 100) None
        (Some 0.05) = Inr (e2, o2) \<and> e1 < e2) \<and>
   (\<exists>e1 e2. Penman_calc_evaporation PenmanMonteith_init 0.0001 20 (Some 100) = Inr e1 \<and>
      Penman_calc_evaporation PenmanMonteith_init 0.0005 20 (Some 100) = Inr e2 \<and> e1 < e2) \<and>
   (\<exists>e1 e2. PriestleyTaylor_calc_evaporation PenmanMonteith_init 0.0001 20 (Some 100) 1.26 = Inr e1 \<and>
      PriestleyTaylor_calc_evaporation PenmanMonteith_init 0.0005 20 (Some 100) 1.26 = Inr e2 \<and>
      e1 < e2)"
proof -
  have "(0.0001::real) < 0.0005" and "(0::real) < 100" and "0 < pm_cp PenmanMonteith_init"
    and "0 < pm_epsilon PenmanMonteith_init" and "(20::real) + 237.3 \<noteq> 0"
    and "0 < calc_latent_heat_of_vapourisation 20"
    by (simp_all add: PenmanMonteith_init_def calc_latent_heat_of_vapourisation_def)
  from evaporation_strictly_increasing [OF this, of "0.005" "0.05" "0.5" 2 None "1.26"]
  show ?thesis by simp
qed

subsection \<open>Control values outside the recognised ones\<close>

lemma get_met_data_demo:
  "get_met_data demo_met 0 12 =
     Inr \<lparr>met_tair_am = 0, met_tair_pm = 0, met_tair_day = 0, met_rain = 10,
          met_sw_rad_am = 10, met_sw_rad_pm = 10, met_sw_rad_day = 20,
          met_vpd_am = 1, met_vpd_pm = 1, met_vpd_day = 1,
          met_wind_am = 2, met_wind_pm = 2, met_wind_day = 2,
          met_ca = 380, met_press = Some 100\<rparr>"
  by (simp add: get_met_data_def met_series_def demo_met_def py_index_def)

lemma calc_radiation_nonzero:
  "daylen \<noteq> 0 \<Longrightarrow>
     calc_radiation K p tavg sw_rad daylen =
       Inr (max 0 (sw_rad * (1 - albedo p) - (107 - 0.3 * tavg) * daylen * WATT_HR_TO_MJ K)
              * (1 / (60 * 60 * daylen)))"
  by (simp add: calc_radiation_def Let_def py_div_nonzero)

lemma transpiration_branch_unrecognised:
  assumes "trans_model c \<notin> {0, 1, 2} \<or>
           trans_model c = 1 \<and> assim_model c \<notin> {''BEWDY'', ''MATE''}"
  shows "transpiration_branch K c p s f m daylen nd na np = Inr f"
  using assms by (auto simp: transpiration_branch_def)

lemma calc_soil_evaporation_dry_topsoil:
  assumes "wtfac_topsoil s = 0"
    and "Penman_calc_evaporation PenmanMonteith_init net_rad tavg press = Inr e0"
  shows "calc_soil_evaporation s tavg net_rad press daylen sw_rad = Inr 0"
  using assms by (simp add: calc_soil_evaporation_def Let_def)


lemma Penman_demo:
  "\<exists>e0. Penman_calc_evaporation PenmanMonteith_init nr 0 (Some 100) = Inr e0"
proof -
  have "(0::real) < 4098 * 0.6108 / (237.3 * 237.3)" and "(0::real) < 0.1013 / (0.6222 * 2.501)"
    and "0 < calc_latent_heat_of_vapourisation 0"
    by (simp_all add: calc_latent_heat_of_vapourisation_def)
  from Penman_value [OF slope_at_zero this(1) gamma_at_zero this(2,3), of nr]
  show ?thesis by blast
qed

text \<open>
  Against claim C4 as stated: with \<open>trans_model = 3\<close> one day of
  \<open>calculate_water_balance\<close> runs to its end. No transpiration is computed; the value
  \<open>7\<close> already in the fluxes is kept, enters \<open>et\<close> and is drawn from the root-zone
  store (\<open>50 + 10 - 7 = 53\<close>).
\<close>

theorem unrecognised_trans_model_runs:
  "calculate_water_balance demo_constants (demo_control\<lparr>trans_model := 3\<rparr>) demo_params
     (demo_state\<lparr>pawater_root := 50, wtfac_topsoil := 0\<rparr>) (demo_fluxes\<lparr>transpiration := 7\<rparr>)
     demo_met 0 12 =
   Inr (demo_state\<lparr>pawater_topsoil := 50, pawater_root := 53, wtfac_topsoil := 0,
          delta_sw_store := 3\<rparr>,
        demo_fluxes\<lparr>transpiration := 7, soil_evap := 0, erain := 10, et := 7\<rparr>)"
proof -
  let ?c = "demo_control\<lparr>trans_model := 3\<rparr>"
  let ?s = "demo_state\<lparr>pawater_root := 50, wtfac_topsoil := 0\<rparr>"
  let ?f = "demo_fluxes\<lparr>transpiration := 7\<rparr>"
  let ?m = "\<lparr>met_tair_am = 0, met_tair_pm = 0, met_tair_day = 0, met_rain = 10,
          met_sw_rad_am = 10, met_sw_rad_pm = 10, met_sw_rad_day = 20,
          met_vpd_am = 1, met_vpd_pm = 1, met_vpd_day = 1,
          met_wind_am = 2, met_wind_pm = 2, met_wind_day = 2,
          met_ca = 380, met_press = Some 100\<rparr>"
  have d12: "(12::real) \<noteq> 0" and d6: "(12::real) / 2 \<noteq> 0" by simp_all
  obtain nd where nd: "calc_radiation demo_constants demo_params 0 20 12 = Inr nd"
    using calc_radiation_nonzero [OF d12] by blast
  obtain na where na: "calc_radiation demo_constants demo_params 0 10 (12 / 2) = Inr na"
    using calc_radiation_nonzero [OF d6] by blast
  have "trans_model ?c \<notin> {0, 1, 2} \<or>
        trans_model ?c = 1 \<and> assim_model ?c \<notin> {''BEWDY'', ''MATE''}"
    by (simp add: demo_control_def)
  note br = transpiration_branch_unrecognised [OF this]
  from Penman_demo obtain e0
    where "Penman_calc_evaporation PenmanMonteith_init nd 0 (Some 100) = Inr e0" by blast
  with calc_soil_evaporation_dry_topsoil [of ?s nd 0 "Some 100" e0 12 20]
  have se: "calc_soil_evaporation ?s 0 nd (Some 100) 12 20 = Inr 0"
    by (simp add: demo_state_def)
  have inf: "calc_infiltration demo_params ?s ?f 10 = Inr (?f\<lparr>erain := 10, interception := 0\<rparr>)"
    by (simp add: calc_infiltration_def demo_state_def)
  have upd: "update_water_storage demo_params ?s
        (?f\<lparr>erain := 10, interception := 0, soil_evap := 0, et := 7\<rparr>) (1 / 10 ^ 8) =
      (demo_state\<lparr>pawater_topsoil := 50, pawater_root := 53, wtfac_topsoil := 0,
          delta_sw_store := 3\<rparr>,
       ?f\<lparr>erain := 10, interception := 0, soil_evap := 0, et := 7\<rparr>, 0)"
    by (simp add: update_water_storage_def demo_params_def demo_state_def demo_fluxes_def
        float_le_zero clip_def)
  have tail: "water_balance_after_transpiration demo_params ?s ?f ?m 12 nd =
      Inr (demo_state\<lparr>pawater_topsoil := 50, pawater_root := 53, wtfac_topsoil := 0,
          delta_sw_store := 3\<rparr>,
        demo_fluxes\<lparr>transpiration := 7, soil_evap := 0, erain := 10, et := 7\<rparr>)"
    unfolding water_balance_after_transpiration_def
    using se inf upd by (simp add: demo_fluxes_def)
  show ?thesis
    unfolding calculate_water_balance_def Let_def get_met_data_demo
    using nd na br tail by simp
qed


text \<open>
  Claim C4 (unrecognised control values), as amended. Nothing rejects the value before
  the daily calls. With \<open>trans_model\<close> outside \<open>{0, 1, 2}\<close>, or with
  \<open>trans_model = 1\<close> and \<open>assim_model\<close> neither \<^verbatim>\<open>BEWDY\<close> nor \<^verbatim>\<open>MATE\<close>, a day with
  forcing and a non-zero day length runs the statements after the branch on the fluxes
  as they were. With \<open>sw_stress_model\<close> outside \<open>{0, 1, 2}\<close> and non-zero capacities,
  \<open>calculate_soil_water_fac\<close> raises at its \<^verbatim>\<open>return\<close>.
\<close>

theorem unrecognised_control_values:
  "((trans_model c \<notin> {0, 1, 2} \<or>
       trans_model c = 1 \<and> assim_model c \<notin> {''BEWDY'', ''MATE''}) \<and>
      get_met_data md day daylen = Inr m \<and> daylen \<noteq> 0 \<longrightarrow>
      (\<exists>nd. calc_radiation K p (met_tair_day m) (met_sw_rad_day m) daylen = Inr nd \<and>
         calculate_water_balance K c p s f md day daylen =
           water_balance_after_transpiration p s f m daylen nd)) \<and>
   (sw_stress_model c \<notin> {0, 1, 2} \<and> wcapac_topsoil p \<noteq> 0 \<and> wcapac_root p \<noteq> 0 \<longrightarrow>
      calculate_soil_water_fac c p s = Inl UnboundLocalError)"
proof (intro conjI impI)
  assume h: "(trans_model c \<notin> {0, 1, 2} \<or>
       trans_model c = 1 \<and> assim_model c \<notin> {''BEWDY'', ''MATE''}) \<and>
      get_met_data md day daylen = Inr m \<and> daylen \<noteq> 0"
  then have d: "daylen \<noteq> 0" and d2: "daylen / 2 \<noteq> 0" by simp_all
  from h have br: "transpiration_branch K c p s f m daylen nd na np = Inr f" for nd na np
    by (simp add: transpiration_branch_unrecognised)
  from h show "\<exists>nd. calc_radiation K p (met_tair_day m) (met_sw_rad_day m) daylen = Inr nd \<and>
         calculate_water_balance K c p s f md day daylen =
           water_balance_after_transpiration p s f m daylen nd"
    by (simp add: calculate_water_balance_def Let_def calc_radiation_nonzero [OF d]
        calc_radiation_nonzero [OF d2] br)
next
  assume "sw_stress_model c \<notin> {0, 1, 2} \<and> wcapac_topsoil p \<noteq> 0 \<and> wcapac_root p \<noteq> 0"
  then show "calculate_soil_water_fac c p s = Inl UnboundLocalError"
    by (simp add: calculate_soil_water_fac_def py_div_nonzero)
qed

theorem unrecognised_control_values_witness:
  "(\<exists>nd. calc_radiation demo_constants demo_params 0 20 12 = Inr nd \<and>
      calculate_water_balance demo_constants (demo_control\<lparr>trans_model := 3\<rparr>) demo_params
        demo_state demo_fluxes demo_met 0 12 =
      water_balance_after_transpiration demo_params demo_state demo_fluxes
        \<lparr>met_tair_am = 0, met_tair_pm = 0, met_tair_day = 0, met_rain = 10,
          met_sw_rad_am = 10, met_sw_rad_pm = 10, met_sw_rad_day = 20,
          met_vpd_am = 1, met_vpd_pm = 1, met_vpd_day = 1,
          met_wind_am = 2, met_wind_pm = 2, met_wind_day = 2,
          met_ca = 380, met_press = Some 100\<rparr> 12 nd) \<and>
   (\<exists>nd. calc_radiation demo_constants demo_params 0 20 12 = Inr nd \<and>
      calculate_water_balance demo_constants (demo_control\<lparr>assim_model := ''mate''\<rparr>) demo_params
        demo_state demo_fluxes demo_met 0 12 =
      water_balance_after_transpiration demo_params demo_state demo_fluxes
        \<lparr>met_tair_am = 0, met_tair_pm = 0, met_tair_day = 0, met_rain = 10,
          met_sw_rad_am = 10, met_sw_rad_pm = 10, met_sw_rad_day = 20,
          met_vpd_am = 1, met_vpd_pm = 1, met_vpd_day = 1,
          met_wind_am = 2, met_wind_pm = 2, met_wind_day = 2,
          met_ca = 380, met_press = Some 100\<rparr> 12 nd) \<and>
   calculate_soil_water_fac (demo_control\<lparr>sw_stress_model := 3\<rparr>) demo_params demo_state
     = Inl UnboundLocalError"
proof (intro conjI)
  let ?m = "\<lparr>met_tair_am = 0, met_tair_pm = 0, met_tair_day = 0, met_rain = 10,
          met_sw_rad_am = 10, met_sw_rad_pm = 10, met_sw_rad_day = 20,
          met_vpd_am = 1, met_vpd_pm = 1, met_vpd_day = 1,
          met_wind_am = 2, met_wind_pm = 2, met_wind_day = 2,
          met_ca = 380, met_press = Some 100\<rparr>"
  show "\<exists>nd. calc_radiation demo_constants demo_params 0 20 12 = Inr nd \<and>
      calculate_water_balance demo_constants (demo_control\<lparr>trans_model := 3\<rparr>) demo_params
        demo_state demo_fluxes demo_met 0 12 =
      water_balance_after_transpiration demo_params demo_state demo_fluxes ?m 12 nd"
    using unrecognised_control_values
      [where c = "demo_control\<lparr>trans_model := 3\<rparr>" and md = demo_met and day = 0
         and daylen = 12 and m = ?m and K = demo_constants and p = demo_params
         and s = demo_state and f = demo_fluxes]
    by (simp add: get_met_data_demo demo_control_def)
  show "\<exists>nd. calc_radiation demo_constants demo_params 0 20 12 = Inr nd \<and>
      calculate_water_balance demo_constants (demo_control\<lparr>assim_model := ''mate''\<rparr>) demo_params
        demo_state demo_fluxes demo_met 0 12 =
      water_balance_after_transpiration demo_params demo_state demo_fluxes ?m 12 nd"
    using unrecognised_control_values
      [where c = "demo_control\<lparr>assim_model := ''mate''\<rparr>" and md = demo_met and day = 0
         and daylen = 12 and m = ?m and K = demo_constants and p = demo_params
         and s = demo_state and f = demo_fluxes]
    by (simp add: get_met_data_demo demo_control_def)
  show "calculate_soil_water_fac (demo_control\<lparr>sw_stress_model := 3\<rparr>) demo_params demo_state
     = Inl UnboundLocalError"
    using unrecognised_control_values
      [where c = "demo_control\<lparr>sw_stress_model := 3\<rparr>" and p = demo_params and s = demo_state]
    by (simp add: demo_control_def demo_params_def)
qed

end
